theory Spec2Isabelle
  imports Complex_Main
begin

section \<open>JavaScript values\<close>

text \<open>
  A JavaScript number is a finite value or one of the three special values. Finite values
  are kept as exact rationals: the rounding of binary64 is not modelled, but the loss of
  finiteness is, because \<open>safeNumber\<close> tests it. Negative zero is identified with zero
  (nothing in \<open>server.js\<close> tells them apart).
\<close>

datatype jsnum = Fin rat | NaN | PInf | NInf

text \<open>
  Values as they arrive in a JSON request body or in a row returned by the database driver.
  \<open>JUndefined\<close> is what reading a missing property gives. An object is the list of its own
  properties; none of them is callable.
\<close>

datatype jsval =
    JUndefined
  | JNull
  | JBool bool
  | JNum jsnum
  | JStr string
  | JArr "jsval list"
  | JObj "(string \<times> jsval) list"

text \<open>What the handlers can catch: a TypeError of the language, or an error of a query.\<close>

datatype exn = TypeError | DbError

text \<open>The magnitude from which round-to-nearest of binary64 gives an infinity.\<close>

definition overflow_bound :: rat where
  "overflow_bound = 2 ^ 1024 - 2 ^ 970"

definition norm_num :: "rat \<Rightarrow> jsnum" where
  "norm_num r =
     (if overflow_bound \<le> r then PInf
      else if r \<le> - overflow_bound then NInf
      else Fin r)"

text \<open>Multiplication and addition of numbers (\<open>*\<close> and \<open>+\<close> on two numbers).\<close>

fun num_sign :: "jsnum \<Rightarrow> int" where
  "num_sign (Fin r) = (if r < 0 then -1 else if r = 0 then 0 else 1)"
| "num_sign NaN = 0"
| "num_sign PInf = 1"
| "num_sign NInf = -1"

fun jmul :: "jsnum \<Rightarrow> jsnum \<Rightarrow> jsnum" where
  "jmul (Fin a) (Fin b) = norm_num (a * b)"
| "jmul NaN _ = NaN"
| "jmul _ NaN = NaN"
| "jmul a b =
     (if num_sign a * num_sign b = 0 then NaN
      else if num_sign a * num_sign b > 0 then PInf else NInf)"

fun jadd :: "jsnum \<Rightarrow> jsnum \<Rightarrow> jsnum" where
  "jadd (Fin a) (Fin b) = norm_num (a + b)"
| "jadd NaN _ = NaN"
| "jadd _ NaN = NaN"
| "jadd PInf NInf = NaN"
| "jadd NInf PInf = NaN"
| "jadd PInf _ = PInf"
| "jadd _ PInf = PInf"
| "jadd NInf _ = NInf"
| "jadd _ NInf = NInf"

text \<open>\<open>Number.isFinite\<close> on a number.\<close>

fun isFinite :: "jsnum \<Rightarrow> bool" where
  "isFinite (Fin _) = True"
| "isFinite _ = False"

text \<open>Truthiness of a number and of a value (\<open>!v\<close>, \<open>a || b\<close>).\<close>

fun num_truthy :: "jsnum \<Rightarrow> bool" where
  "num_truthy (Fin r) = (r \<noteq> 0)"
| "num_truthy NaN = False"
| "num_truthy _ = True"

fun truthy :: "jsval \<Rightarrow> bool" where
  "truthy JUndefined = False"
| "truthy JNull = False"
| "truthy (JBool b) = b"
| "truthy (JNum n) = num_truthy n"
| "truthy (JStr s) = (s \<noteq> [])"
| "truthy (JArr _) = True"
| "truthy (JObj _) = True"

subsection \<open>Strings to numbers\<close>

text \<open>
  \<open>StringToNumber\<close> of ECMAScript, on strings given as UTF-8 bytes: white space and line
  terminators are trimmed at both ends, the empty string is zero, and the rest must be a
  decimal literal (optional sign, \<open>Infinity\<close> or digits with an optional fraction and
  exponent) or an unsigned hexadecimal, octal or binary integer literal.
\<close>

definition ws_seqs :: "string list" where
  "ws_seqs =
     [ [CHR 0x09], [CHR 0x0A], [CHR 0x0B], [CHR 0x0C], [CHR 0x0D], [CHR 0x20],
      [CHR 0xC2, CHR 0xA0],
      [CHR 0xE1, CHR 0x9A, CHR 0x80],
      [CHR 0xE2, CHR 0x80, CHR 0x80], [CHR 0xE2, CHR 0x80, CHR 0x81],
      [CHR 0xE2, CHR 0x80, CHR 0x82], [CHR 0xE2, CHR 0x80, CHR 0x83],
      [CHR 0xE2, CHR 0x80, CHR 0x84], [CHR 0xE2, CHR 0x80, CHR 0x85],
      [CHR 0xE2, CHR 0x80, CHR 0x86], [CHR 0xE2, CHR 0x80, CHR 0x87],
      [CHR 0xE2, CHR 0x80, CHR 0x88], [CHR 0xE2, CHR 0x80, CHR 0x89],
      [CHR 0xE2, CHR 0x80, CHR 0x8A],
      [CHR 0xE2, CHR 0x80, CHR 0xA8], [CHR 0xE2, CHR 0x80, CHR 0xA9],
      [CHR 0xE2, CHR 0x80, CHR 0xAF],
      [CHR 0xE2, CHR 0x81, CHR 0x9F],
      [CHR 0xE3, CHR 0x80, CHR 0x80],
      [CHR 0xEF, CHR 0xBB, CHR 0xBF]]"

text \<open>The length of the white-space character a string starts with; 0 when there is none.\<close>

definition ws_prefix_len :: "string list \<Rightarrow> string \<Rightarrow> nat" where
  "ws_prefix_len seqs s =
     (case filter (\<lambda>w. take (length w) s = w) seqs of [] \<Rightarrow> 0 | w # _ \<Rightarrow> length w)"

fun drop_ws :: "string list \<Rightarrow> string \<Rightarrow> string" where
  "drop_ws seqs [] = []"
| "drop_ws seqs (c # cs) =
     (if ws_prefix_len seqs (c # cs) = 0 then c # cs
      else drop_ws seqs (drop (ws_prefix_len seqs (c # cs) - 1) cs))"

definition trim :: "string \<Rightarrow> string" where
  "trim s = rev (drop_ws (map rev ws_seqs) (rev (drop_ws ws_seqs s)))"

definition is_digit :: "char \<Rightarrow> bool" where
  "is_digit c = (48 \<le> (of_char c :: nat) \<and> (of_char c :: nat) \<le> 57)"

text \<open>The value of a digit in a base up to 16; \<open>None\<close> when the character is no digit of it.\<close>

definition digit_in :: "nat \<Rightarrow> char \<Rightarrow> nat option" where
  "digit_in base c =
     (let n = (of_char c :: nat);
          v = (if 48 \<le> n \<and> n \<le> 57 then n - 48
               else if 97 \<le> n \<and> n \<le> 102 then n - 87
               else if 65 \<le> n \<and> n \<le> 70 then n - 55
               else 16)
      in if v < base then Some v else None)"

fun digits_in :: "nat \<Rightarrow> nat \<Rightarrow> string \<Rightarrow> nat option" where
  "digits_in base acc [] = Some acc"
| "digits_in base acc (c # cs) =
     (case digit_in base c of
        None \<Rightarrow> None
      | Some v \<Rightarrow> digits_in base (base * acc + v) cs)"

text \<open>One or more digits of the base, and nothing else.\<close>

definition int_literal :: "nat \<Rightarrow> string \<Rightarrow> nat option" where
  "int_literal base s = (if s = [] then None else digits_in base 0 s)"

definition pow10 :: "int \<Rightarrow> rat" where
  "pow10 e = (if 0 \<le> e then 10 ^ nat e else 1 / 10 ^ nat (- e))"

text \<open>The exponent part after the mantissa: absent, or \<open>e\<close>, an optional sign and digits.\<close>

definition exponent_part :: "string \<Rightarrow> int option" where
  "exponent_part s =
     (case s of
        [] \<Rightarrow> Some 0
      | c # r \<Rightarrow>
          if c = CHR ''e'' \<or> c = CHR ''E'' then
            (case r of
               [] \<Rightarrow> None
             | d # r' \<Rightarrow>
                 if d = CHR ''+'' then map_option int (int_literal 10 r')
                 else if d = CHR ''-'' then map_option (\<lambda>n. - int n) (int_literal 10 r')
                 else map_option int (int_literal 10 r))
          else None)"

definition unsigned_decimal :: "string \<Rightarrow> jsnum option" where
  "unsigned_decimal s =
     (if s = ''Infinity'' then Some PInf
      else
        let ip = takeWhile is_digit s; r1 = dropWhile is_digit s;
            dot = (r1 \<noteq> [] \<and> hd r1 = CHR ''.'');
            fp = (if dot then takeWhile is_digit (tl r1) else []);
            r2 = (if dot then dropWhile is_digit (tl r1) else r1)
        in if ip = [] \<and> fp = [] then None
           else
             (case (digits_in 10 0 (ip @ fp), exponent_part r2) of
                (Some m, Some e) \<Rightarrow>
                  Some (norm_num (rat_of_nat m / 10 ^ length fp * pow10 e))
              | _ \<Rightarrow> None))"

fun num_neg :: "jsnum \<Rightarrow> jsnum" where
  "num_neg (Fin r) = Fin (- r)"
| "num_neg NaN = NaN"
| "num_neg PInf = NInf"
| "num_neg NInf = PInf"

definition decimal_literal :: "string \<Rightarrow> jsnum option" where
  "decimal_literal s =
     (case s of
        [] \<Rightarrow> None
      | c # r \<Rightarrow>
          if c = CHR ''+'' then unsigned_decimal r
          else if c = CHR ''-'' then map_option num_neg (unsigned_decimal r)
          else unsigned_decimal s)"

definition non_decimal_literal :: "string \<Rightarrow> jsnum option" where
  "non_decimal_literal s =
     (let p = take 2 s; r = drop 2 s
      in if p = ''0x'' \<or> p = ''0X'' then map_option (\<lambda>n. norm_num (rat_of_nat n)) (int_literal 16 r)
         else if p = ''0o'' \<or> p = ''0O'' then map_option (\<lambda>n. norm_num (rat_of_nat n)) (int_literal 8 r)
         else if p = ''0b'' \<or> p = ''0B'' then map_option (\<lambda>n. norm_num (rat_of_nat n)) (int_literal 2 r)
         else None)"

definition StringToNumber :: "string \<Rightarrow> jsnum" where
  "StringToNumber s =
     (let t = trim s
      in if t = [] then Fin 0
         else
           (case non_decimal_literal t of
              Some n \<Rightarrow> n
            | None \<Rightarrow> (case decimal_literal t of Some n \<Rightarrow> n | None \<Rightarrow> NaN)))"

subsection \<open>Values to numbers\<close>

text \<open>
  Converting an object to a primitive calls \<open>valueOf\<close>, then \<open>toString\<close>. The inherited
  \<open>valueOf\<close> returns the object itself, and an own property of one of these names is not
  callable and is skipped. So an object with an own \<open>toString\<close> has no primitive value
  (a TypeError), and any other object gives \<open>[object Object]\<close>. An array is joined with
  commas; joining converts each element to a string, which raises where an element does.
\<close>

fun no_primitive :: "jsval \<Rightarrow> bool" where
  "no_primitive (JObj kvs) = (''toString'' \<in> set (map fst kvs))"
| "no_primitive (JArr xs) = list_ex no_primitive xs"
| "no_primitive _ = False"

text \<open>
  \<open>Number(v)\<close>. For an array the joined string is not built: an empty array joins to the
  empty string; an array of two or more elements joins to a string with a comma, which is
  no numeric literal; an array of one element joins to that element's string, and a number
  converted to a string and back is the same number.
\<close>

fun ToNumber :: "jsval \<Rightarrow> exn + jsnum" where
  "ToNumber JUndefined = Inr NaN"
| "ToNumber JNull = Inr (Fin 0)"
| "ToNumber (JBool b) = Inr (Fin (if b then 1 else 0))"
| "ToNumber (JNum n) = Inr n"
| "ToNumber (JStr s) = Inr (StringToNumber s)"
| "ToNumber (JObj kvs) = (if no_primitive (JObj kvs) then Inl TypeError else Inr NaN)"
| "ToNumber (JArr []) = Inr (Fin 0)"
| "ToNumber (JArr [JUndefined]) = Inr (Fin 0)"
| "ToNumber (JArr [JNull]) = Inr (Fin 0)"
| "ToNumber (JArr [JBool b]) = Inr NaN"
| "ToNumber (JArr [x]) = ToNumber x"
| "ToNumber (JArr xs) = (if list_ex no_primitive xs then Inl TypeError else Inr NaN)"

section \<open>safeNumber\<close>

text \<open>
  \<^verbatim>\<open>function safeNumber(v) { const n = Number(v); return Number.isFinite(n) ? n : 0; }\<close>
  The result is a number; the exception of \<open>Number\<close> passes through.
\<close>

definition safeNumber :: "jsval \<Rightarrow> exn + jsnum" where
  "safeNumber v =
     (case ToNumber v of
        Inl e \<Rightarrow> Inl e
      | Inr n \<Rightarrow> Inr (if isFinite n then n else Fin 0))"

section \<open>Rental days\<close>

text \<open>
  A date read from the store is represented by its local wall-clock time in milliseconds
  since 1970-01-01 00:00. \<open>end.diff(start, "day")\<close> of dayjs subtracts the two instants,
  corrects by the difference of their zone offsets (so it works on wall-clock times),
  divides by the milliseconds of a day and truncates towards zero.
\<close>

type_synonym date = int

definition ms_per_day :: int where
  "ms_per_day = 86400000"

definition absFloor :: "int \<Rightarrow> int \<Rightarrow> int" where
  "absFloor n d = (if n < 0 then - ((- n) div d) else n div d)"

definition diff_day :: "date \<Rightarrow> date \<Rightarrow> int" where
  "diff_day e s = absFloor (e - s) ms_per_day"

text \<open>
  \<^verbatim>\<open>let daysCount = 1;
  if (order.rent_start && order.rent_end) {
    const diff = end.diff(start, "day") + 1;
    daysCount = diff > 0 ? diff : 1;
  }\<close>
  An absent date is \<open>None\<close> (SQL NULL, read as \<open>null\<close>).
\<close>

definition daysCount :: "date option \<Rightarrow> date option \<Rightarrow> int" where
  "daysCount rent_start rent_end =
     (case (rent_start, rent_end) of
        (Some s, Some e) \<Rightarrow> (let diff = diff_day e s + 1 in if diff > 0 then diff else 1)
      | _ \<Rightarrow> 1)"

text \<open>The day number of a date of the Gregorian calendar, and the date at its midnight.\<close>

definition civil_day :: "int \<Rightarrow> int \<Rightarrow> int \<Rightarrow> int" where
  "civil_day y m d =
     (let y' = (if m \<le> 2 then y - 1 else y);
          era = y' div 400;
          yoe = y' - era * 400;
          doy = (153 * (if m > 2 then m - 3 else m + 9) + 2) div 5 + d - 1;
          doe = yoe * 365 + yoe div 4 - yoe div 100 + doy
      in era * 146097 + doe - 719468)"

definition ymd :: "int \<Rightarrow> int \<Rightarrow> int \<Rightarrow> date" where
  "ymd y m d = civil_day y m d * ms_per_day"

section \<open>The store\<close>

text \<open>
  The three tables, each in insertion order, and the counters that give the next id of
  each. Text columns hold strings, date columns hold dates, a nullable column holds an
  option. The numeric columns (\<open>price\<close>, \<open>quantity\<close>, \<open>line_total\<close>, \<open>total\<close>) hold the value
  a \<open>SELECT\<close> returns for them, which the driver gives as a number or as a string.
\<close>

record customer =
  c_id :: nat
  c_name :: string
  c_phone :: string
  c_alt_phone :: "string option"
  c_address :: string
  c_rent_status :: string

record order =
  o_id :: nat
  o_invoice_no :: string
  o_customer_id :: nat
  o_order_date :: "date option"
  o_rent_start :: "date option"
  o_rent_end :: "date option"
  o_total :: jsval

record order_item =
  i_id :: nat
  i_order_id :: nat
  i_product :: "string option"
  i_price :: jsval
  i_quantity :: jsval
  i_line_total :: jsval

record store =
  customers :: "customer list"
  orders :: "order list"
  order_items :: "order_item list"
  seq_customer :: nat
  seq_order :: nat
  seq_item :: nat

text \<open>
  The schema is not part of the repository. What the store does with a query parameter
  bound to a text, a date or an id column is therefore a parameter of the model: the text
  it stores, and the date or id it reads, or \<open>None\<close> when it rejects the parameter and the
  query fails.
\<close>

record env =
  to_text :: "jsval \<Rightarrow> string"
  to_date :: "jsval \<Rightarrow> date option"
  to_id :: "jsval \<Rightarrow> nat option"

text \<open>A parameter that is \<open>null\<close> or \<open>undefined\<close> is sent as NULL.\<close>

definition text_param :: "env \<Rightarrow> jsval \<Rightarrow> string option" where
  "text_param E v = (if v = JUndefined \<or> v = JNull then None else Some (to_text E v))"

text \<open>\<open>v || null\<close> bound to a text column.\<close>

definition text_or_null :: "env \<Rightarrow> jsval \<Rightarrow> string option" where
  "text_or_null E v = (if truthy v then Some (to_text E v) else None)"

text \<open>\<open>v || null\<close> bound to a date column: NULL, a date, or a failed query.\<close>

definition date_or_null :: "env \<Rightarrow> jsval \<Rightarrow> exn + date option" where
  "date_or_null E v =
     (if truthy v then (case to_date E v of None \<Rightarrow> Inl DbError | Some d \<Rightarrow> Inr (Some d))
      else Inr None)"

text \<open>
  Reading a property of a value, for the names \<open>server.js\<close> reads from an item
  (\<open>product\<close>, \<open>price\<close>, \<open>quantity\<close>), which no prototype defines: a TypeError on \<open>null\<close> and
  \<open>undefined\<close>, the own property of an object, \<open>undefined\<close> otherwise.
\<close>

fun get_prop :: "jsval \<Rightarrow> string \<Rightarrow> exn + jsval" where
  "get_prop JUndefined k = Inl TypeError"
| "get_prop JNull k = Inl TypeError"
| "get_prop (JObj kvs) k = Inr (case map_of kvs k of None \<Rightarrow> JUndefined | Some v \<Rightarrow> v)"
| "get_prop _ k = Inr JUndefined"

text \<open>\<open>!Array.isArray(items) || items.length === 0\<close>\<close>

fun no_items :: "jsval \<Rightarrow> bool" where
  "no_items (JArr xs) = (xs = [])"
| "no_items _ = True"

fun elements :: "jsval \<Rightarrow> jsval list" where
  "elements (JArr xs) = xs"
| "elements _ = []"

section \<open>Writing orders\<close>

text \<open>
  The body of the item loop, the same in the three handlers that write items:
  \<^verbatim>\<open>const price = safeNumber(it.price);
  const qty = safeNumber(it.quantity);
  const line = price * qty;\<close>
  It gives the product parameter, the price, the quantity and the line amount.
\<close>

definition item_values :: "jsval \<Rightarrow> exn + (jsval \<times> jsnum \<times> jsnum \<times> jsnum)" where
  "item_values it =
     (case get_prop it ''price'' of
        Inl e \<Rightarrow> Inl e
      | Inr pv \<Rightarrow>
          (case safeNumber pv of
             Inl e \<Rightarrow> Inl e
           | Inr price \<Rightarrow>
               (case get_prop it ''quantity'' of
                  Inl e \<Rightarrow> Inl e
                | Inr qv \<Rightarrow>
                    (case safeNumber qv of
                       Inl e \<Rightarrow> Inl e
                     | Inr qty \<Rightarrow>
                         (case get_prop it ''product'' of
                            Inl e \<Rightarrow> Inl e
                          | Inr label \<Rightarrow> Inr (label, price, qty, jmul price qty))))))"

text \<open>
  \<open>INSERT INTO order_items (order_id, product, price, quantity, line_total)\<close>. The
  numbers written are kept as they are: what the column type of the store would do to
  them (rounding to a scale, say) is not modelled.
\<close>

definition insert_item :: "env \<Rightarrow> nat \<Rightarrow> jsval \<times> jsnum \<times> jsnum \<times> jsnum \<Rightarrow> store \<Rightarrow> store" where
  "insert_item E oid vals s =
     (case vals of
        (label, price, qty, line) \<Rightarrow>
          s\<lparr>order_items := order_items s @
               [\<lparr>i_id = seq_item s, i_order_id = oid, i_product = text_param E label,
                 i_price = JNum price, i_quantity = JNum qty, i_line_total = JNum line\<rparr>],
            seq_item := Suc (seq_item s)\<rparr>)"

text \<open>
  \<^verbatim>\<open>let total = 0;
  for (const it of items) { ...; total += line; await client.query(INSERT ...); }\<close>
  The loop stops at the first exception.
\<close>

fun insert_items :: "env \<Rightarrow> nat \<Rightarrow> jsval list \<Rightarrow> jsnum \<Rightarrow> store \<Rightarrow> exn + (jsnum \<times> store)" where
  "insert_items E oid [] tot s = Inr (tot, s)"
| "insert_items E oid (it # its) tot s =
     (case item_values it of
        Inl e \<Rightarrow> Inl e
      | Inr vals \<Rightarrow>
          insert_items E oid its (jadd tot (snd (snd (snd vals)))) (insert_item E oid vals s))"

text \<open>\<open>UPDATE orders SET total=$1 WHERE id=$2\<close>\<close>

definition set_total :: "nat \<Rightarrow> jsnum \<Rightarrow> store \<Rightarrow> store" where
  "set_total oid tot s =
     s\<lparr>orders := map (\<lambda>r. if o_id r = oid then r\<lparr>o_total := JNum tot\<rparr> else r) (orders s)\<rparr>"

text \<open>\<open>INSERT INTO customers (name, phone, alt_phone, address, rent_status) ... RETURNING id\<close>\<close>

definition insert_customer :: "env \<Rightarrow> jsval \<Rightarrow> jsval \<Rightarrow> jsval \<Rightarrow> jsval \<Rightarrow> store \<Rightarrow> nat \<times> store" where
  "insert_customer E name phone alt_phone address s =
     (seq_customer s,
      s\<lparr>customers := customers s @
           [\<lparr>c_id = seq_customer s, c_name = to_text E name, c_phone = to_text E phone,
             c_alt_phone = text_or_null E alt_phone, c_address = to_text E address,
             c_rent_status = ''ACTIVE''\<rparr>],
        seq_customer := Suc (seq_customer s)\<rparr>)"

text \<open>
  \<open>INSERT INTO orders (invoice_no, customer_id, order_date, rent_start, rent_end, total)
  VALUES ($1,$2,$3,$4,$5,$6) RETURNING id\<close>, with \<open>rent_start || null\<close>, \<open>rent_end || null\<close>
  and a total of 0. The order date is never null in the two callers.
\<close>

definition insert_order ::
  "env \<Rightarrow> string \<Rightarrow> nat \<Rightarrow> jsval \<Rightarrow> jsval \<Rightarrow> jsval \<Rightarrow> store \<Rightarrow> exn + (nat \<times> store)" where
  "insert_order E uuid cid order_date rent_start rent_end s =
     (case to_date E order_date of
        None \<Rightarrow> Inl DbError
      | Some od \<Rightarrow>
          (case date_or_null E rent_start of
             Inl e \<Rightarrow> Inl e
           | Inr rs \<Rightarrow>
               (case date_or_null E rent_end of
                  Inl e \<Rightarrow> Inl e
                | Inr re \<Rightarrow>
                    Inr (seq_order s,
                         s\<lparr>orders := orders s @
                              [\<lparr>o_id = seq_order s, o_invoice_no = uuid, o_customer_id = cid,
                                o_order_date = Some od, o_rent_start = rs, o_rent_end = re,
                                o_total = JNum (Fin 0)\<rparr>],
                           seq_order := Suc (seq_order s)\<rparr>))))"

text \<open>The body of a request that creates an order; a missing field is \<open>JUndefined\<close>.\<close>

record order_req =
  name :: jsval
  phone :: jsval
  alt_phone :: jsval
  address :: jsval
  rent_start :: jsval
  rent_end :: jsval
  items :: jsval
  order_date :: jsval

datatype failure =
    MissingFields
  | NoProductItems
  | MissingOrderId
  | NoItemsProvided
  | OrderNotFound
  | Thrown exn

datatype response =
    NewCustomerOk nat nat
  | BillOk nat string
  | UpdateOk jsnum
  | Failed failure

text \<open>The destructuring default \<open>items = []\<close>.\<close>

definition items_or_empty :: "jsval \<Rightarrow> jsval" where
  "items_or_empty v = (if v = JUndefined then JArr [] else v)"

text \<open>
  The part of \<open>POST /api/new-customer\<close> between \<open>BEGIN\<close> and \<open>COMMIT\<close>. \<open>uuid\<close> is the
  invoice token \<open>uuidv4()\<close> returns and \<open>today\<close> the string \<open>dayjs().format("YYYY-MM-DD")\<close>
  gives.
\<close>

definition new_customer_tx ::
  "env \<Rightarrow> string \<Rightarrow> jsval \<Rightarrow> order_req \<Rightarrow> store \<Rightarrow> exn + (response \<times> store)" where
  "new_customer_tx E uuid today req s =
     (case insert_customer E (name req) (phone req) (alt_phone req) (address req) s of
        (customerId, s1) \<Rightarrow>
          (case insert_order E uuid customerId
                  (if truthy (order_date req) then order_date req else today)
                  (rent_start req) (rent_end req) s1 of
             Inl e \<Rightarrow> Inl e
           | Inr (orderId, s2) \<Rightarrow>
               (case insert_items E orderId (elements (items_or_empty (items req))) (Fin 0) s2 of
                  Inl e \<Rightarrow> Inl e
                | Inr (tot, s3) \<Rightarrow>
                    Inr (NewCustomerOk customerId orderId, set_total orderId tot s3))))"

text \<open>
  \<open>POST /api/new-customer\<close>: the two validations, then the transaction; an exception
  rolls back to the store the request found and becomes a failure response. (The model
  restores the id counters with the tables.)
\<close>

definition new_customer :: "env \<Rightarrow> string \<Rightarrow> jsval \<Rightarrow> order_req \<Rightarrow> store \<Rightarrow> response \<times> store" where
  "new_customer E uuid today req s =
     (if \<not> truthy (name req) \<or> \<not> truthy (phone req) \<or> \<not> truthy (address req)
      then (Failed MissingFields, s)
      else if no_items (items_or_empty (items req)) then (Failed NoProductItems, s)
      else
        (case new_customer_tx E uuid today req s of
           Inl e \<Rightarrow> (Failed (Thrown e), s)
         | Inr r \<Rightarrow> r))"

text \<open>
  \<open>UPDATE customers SET name=$1, alt_phone=$2, address=$3 WHERE id=$4\<close>, with
  \<open>alt_phone || null\<close>.
\<close>

definition update_customer :: "env \<Rightarrow> nat \<Rightarrow> jsval \<Rightarrow> jsval \<Rightarrow> jsval \<Rightarrow> store \<Rightarrow> store" where
  "update_customer E cid nm alt addr s =
     s\<lparr>customers :=
         map (\<lambda>c. if c_id c = cid
                   then c\<lparr>c_name := to_text E nm, c_alt_phone := text_or_null E alt,
                          c_address := to_text E addr\<rparr>
                   else c)
           (customers s)\<rparr>"

text \<open>
  \<^verbatim>\<open>const c = await client.query(`SELECT id FROM customers WHERE phone=$1`, [phone]);
  if (c.rows.length) { customerId = c.rows[0].id; UPDATE ... } else { INSERT ... }\<close>
  The query has no \<open>ORDER BY\<close>; the rows are taken in the order of the table.
\<close>

definition find_or_create_customer ::
  "env \<Rightarrow> jsval \<Rightarrow> jsval \<Rightarrow> jsval \<Rightarrow> jsval \<Rightarrow> store \<Rightarrow> nat \<times> store" where
  "find_or_create_customer E nm ph alt addr s =
     (case filter (\<lambda>c. c_phone c = to_text E ph) (customers s) of
        c # _ \<Rightarrow> (c_id c, update_customer E (c_id c) nm alt addr s)
      | [] \<Rightarrow> insert_customer E nm ph alt addr s)"

text \<open>
  The transaction of \<open>POST /api/generate-bill\<close>. The order date is always \<open>today\<close>; the
  \<open>order_date\<close> of the body is not read.
\<close>

definition generate_bill_tx ::
  "env \<Rightarrow> string \<Rightarrow> jsval \<Rightarrow> order_req \<Rightarrow> store \<Rightarrow> exn + (response \<times> store)" where
  "generate_bill_tx E uuid today req s =
     (case find_or_create_customer E (name req) (phone req) (alt_phone req) (address req) s of
        (customerId, s1) \<Rightarrow>
          (case insert_order E uuid customerId today (rent_start req) (rent_end req) s1 of
             Inl e \<Rightarrow> Inl e
           | Inr (orderId, s2) \<Rightarrow>
               (case insert_items E orderId (elements (items_or_empty (items req))) (Fin 0) s2 of
                  Inl e \<Rightarrow> Inl e
                | Inr (tot, s3) \<Rightarrow>
                    Inr (BillOk orderId uuid, set_total orderId tot s3))))"

definition generate_bill :: "env \<Rightarrow> string \<Rightarrow> jsval \<Rightarrow> order_req \<Rightarrow> store \<Rightarrow> response \<times> store" where
  "generate_bill E uuid today req s =
     (if \<not> truthy (name req) \<or> \<not> truthy (phone req) \<or> \<not> truthy (address req)
      then (Failed MissingFields, s)
      else if no_items (items_or_empty (items req)) then (Failed NoProductItems, s)
      else
        (case generate_bill_tx E uuid today req s of
           Inl e \<Rightarrow> (Failed (Thrown e), s)
         | Inr r \<Rightarrow> r))"

text \<open>The body of \<open>POST /api/update-order\<close>.\<close>

record update_req =
  u_orderId :: jsval
  u_order_date :: jsval
  u_rent_start :: jsval
  u_rent_end :: jsval
  u_items :: jsval

text \<open>\<open>DELETE FROM order_items WHERE order_id=$1\<close>\<close>

definition delete_items :: "nat \<Rightarrow> store \<Rightarrow> store" where
  "delete_items oid s = s\<lparr>order_items := filter (\<lambda>i. i_order_id i \<noteq> oid) (order_items s)\<rparr>"

text \<open>\<open>COALESCE(p, column)\<close>\<close>

definition coalesce :: "'a option \<Rightarrow> 'a option \<Rightarrow> 'a option" where
  "coalesce p old = (case p of None \<Rightarrow> old | Some v \<Rightarrow> Some v)"

text \<open>
  \<open>UPDATE orders SET total=$1, order_date = COALESCE($2, order_date),
  rent_start = COALESCE($3, rent_start), rent_end = COALESCE($4, rent_end) WHERE id=$5\<close>
\<close>

definition update_order_meta ::
  "nat \<Rightarrow> jsnum \<Rightarrow> date option \<Rightarrow> date option \<Rightarrow> date option \<Rightarrow> store \<Rightarrow> store" where
  "update_order_meta oid tot od rs re s =
     s\<lparr>orders :=
         map (\<lambda>r. if o_id r = oid
                   then r\<lparr>o_total := JNum tot,
                          o_order_date := coalesce od (o_order_date r),
                          o_rent_start := coalesce rs (o_rent_start r),
                          o_rent_end := coalesce re (o_rent_end r)\<rparr>
                   else r)
           (orders s)\<rparr>"

text \<open>
  The transaction of \<open>POST /api/update-order\<close>: the order is looked up; when it is
  missing the handler rolls back and answers "Order not found"; otherwise the items are
  deleted, the new ones inserted, and the order row updated with \<open>order_date || null\<close>,
  \<open>rent_start || null\<close> and \<open>rent_end || null\<close>.
\<close>

definition update_order_tx :: "env \<Rightarrow> update_req \<Rightarrow> store \<Rightarrow> exn + (response \<times> store)" where
  "update_order_tx E req s =
     (case to_id E (u_orderId req) of
        None \<Rightarrow> Inl DbError
      | Some oid \<Rightarrow>
          if \<not> list_ex (\<lambda>r. o_id r = oid) (orders s) then Inr (Failed OrderNotFound, s)
          else
            (case insert_items E oid (elements (u_items req)) (Fin 0) (delete_items oid s) of
               Inl e \<Rightarrow> Inl e
             | Inr (tot, s2) \<Rightarrow>
                 (case date_or_null E (u_order_date req) of
                    Inl e \<Rightarrow> Inl e
                  | Inr od \<Rightarrow>
                      (case date_or_null E (u_rent_start req) of
                         Inl e \<Rightarrow> Inl e
                       | Inr rs \<Rightarrow>
                           (case date_or_null E (u_rent_end req) of
                              Inl e \<Rightarrow> Inl e
                            | Inr re \<Rightarrow>
                                Inr (UpdateOk tot, update_order_meta oid tot od rs re s2))))))"

definition update_order :: "env \<Rightarrow> update_req \<Rightarrow> store \<Rightarrow> response \<times> store" where
  "update_order E req s =
     (if \<not> truthy (u_orderId req) then (Failed MissingOrderId, s)
      else if no_items (u_items req) then (Failed NoItemsProvided, s)
      else
        (case update_order_tx E req s of
           Inl e \<Rightarrow> (Failed (Thrown e), s)
         | Inr r \<Rightarrow> r))"

section \<open>The invoice\<close>

subsection \<open>Number formatting\<close>

definition digit_char :: "nat \<Rightarrow> char" where
  "digit_char k = ''0123456789'' ! k"

fun dec_digits :: "nat \<Rightarrow> string" where
  "dec_digits n =
     (if n < 10 then [digit_char n]
      else dec_digits (n div 10) @ [digit_char (n mod 10)])"

declare dec_digits.simps [simp del]

text \<open>
  \<open>x.toFixed(2)\<close>: a value that is not finite prints as its name; a finite value below
  \<open>10^21\<close> in magnitude prints its sign, then the integer \<open>n\<close> nearest to \<open>100 * |x|\<close> (the
  larger one on a tie) with a point before its last two digits. From \<open>10^21\<close> on the
  result is the exponential notation of the number, whose digits are not modelled
  (\<open>None\<close>).
\<close>

definition toFixed2 :: "jsnum \<Rightarrow> string option" where
  "toFixed2 x =
     (case x of
        NaN \<Rightarrow> Some ''NaN''
      | PInf \<Rightarrow> Some ''Infinity''
      | NInf \<Rightarrow> Some ''-Infinity''
      | Fin r \<Rightarrow>
          if 10 ^ 21 \<le> \<bar>r\<bar> then None
          else
            let n = nat \<lfloor>\<bar>r\<bar> * 100 + 1 / 2\<rfloor>;
                m = dec_digits n;
                m' = replicate (3 - length m) (CHR ''0'') @ m
            in Some ((if r < 0 then ''-'' else []) @
                     take (length m' - 2) m' @ ''.'' @ drop (length m' - 2) m'))"

subsection \<open>The document\<close>

text \<open>
  The text of a drawing call is kept as the pieces of its template: literal text, a number
  converted to a string, a number through \<open>toFixed(2)\<close>, a date through
  \<open>format("DD/MM/YYYY")\<close> (\<open>None\<close> is \<open>null\<close>), a date or a dash, and a nullable text column.
\<close>

datatype piece =
    Lit string
  | NumText jsnum
  | Fixed2 jsnum
  | DateDMY "date option"
  | DateOrDash "date option"
  | TextCol "string option"

text \<open>
  The two fonts the handler selects, and the height of a line in a font at a size, as
  the library computes it for its standard fonts (\<open>currentLineHeight(true)\<close>): 1.156
  times the size in Helvetica, 1.19 times the size in Helvetica-Bold.
\<close>

datatype font = Helvetica | HelveticaBold

definition line_height :: "font \<Rightarrow> rat \<Rightarrow> rat" where
  "line_height f sz =
     (case f of Helvetica \<Rightarrow> 1156 | HelveticaBold \<Rightarrow> 1190) / 1000 * sz"

text \<open>
  The positioned drawing calls of the handler, as it makes them: \<open>text\<close> at \<open>(x, y)\<close> in
  the current font and size, \<open>text\<close> at \<open>(x, y)\<close> with \<open>align: "center"\<close>, a stroked line
  and a stroked rectangle. Colours are left out. The calls at the cursor, which the
  footer makes, are kept apart: \<open>text\<close> with \<open>align: "center"\<close> and \<open>moveDown\<close>.
\<close>

datatype draw =
    Text font rat "piece list" rat rat
  | TextCentered font rat "piece list" rat rat
  | Rule rat rat rat rat
  | Rect rat rat rat rat

datatype flow =
    FlowCentered font rat "piece list"
  | MoveDown nat

text \<open>
  \<open>doc.page.height\<close> of an A4 page, the margin of the document, and \<open>page.maxY()\<close>, the
  height of the bottom margin.
\<close>

definition page_height :: rat where
  "page_height = 84189 / 100"

definition margin :: rat where
  "margin = 40"

definition max_y :: rat where
  "max_y = page_height - margin"

text \<open>
  When \<open>text\<close> is called at a height \<open>y\<close> that is below the bottom margin, or so close to
  it that a line of the current font does not fit above it, the library starts a page by
  itself and prints the text at the top margin of that page. A line or a rectangle never
  starts a page.
\<close>

fun starts_page :: "draw \<Rightarrow> bool" where
  "starts_page (Text f sz ps x y) = (y > max_y \<or> y + line_height f sz > max_y)"
| "starts_page (TextCentered f sz ps x y) = (y > max_y \<or> y + line_height f sz > max_y)"
| "starts_page (Rule x1 y1 x2 y2) = False"
| "starts_page (Rect x y w h) = False"

text \<open>
  The document: the number of the current page, every positioned call with the page it
  landed on, and the calls made at the cursor. A text is taken to fit on one line of its
  width: the wrapping of a long text is not modelled, and so neither is the place of the
  footer, which is printed at the cursor in a narrow column.
\<close>

record pdf =
  page_no :: nat
  drawn :: "(nat \<times> draw) list"
  flowed :: "flow list"

definition put :: "pdf \<Rightarrow> draw \<Rightarrow> pdf" where
  "put doc d =
     doc\<lparr>page_no := (if starts_page d then Suc (page_no doc) else page_no doc),
         drawn := drawn doc @ [(if starts_page d then Suc (page_no doc) else page_no doc, d)]\<rparr>"

definition puts :: "draw list \<Rightarrow> pdf \<Rightarrow> pdf" where
  "puts ds doc = foldl put doc ds"

definition addPage :: "pdf \<Rightarrow> pdf" where
  "addPage doc = doc\<lparr>page_no := Suc (page_no doc)\<rparr>"

definition flows :: "flow list \<Rightarrow> pdf \<Rightarrow> pdf" where
  "flows fs doc = doc\<lparr>flowed := flowed doc @ fs\<rparr>"

definition rupee :: string where
  "rupee = [CHR 0xE2, CHR 0x82, CHR 0xB9]"

definition times_sign :: string where
  "times_sign = [CHR 0xC3, CHR 0x97]"

text \<open>The column header row, in Helvetica-Bold 11, and its rule, at height \<open>y\<close>.\<close>

definition column_header :: "rat \<Rightarrow> draw list" where
  "column_header y =
     [Text HelveticaBold 11 [Lit ''DESCRIPTION''] 40 y,
      Text HelveticaBold 11 [Lit ''PRICE''] 260 y,
      Text HelveticaBold 11 [Lit ''QTY''] 350 y,
      Text HelveticaBold 11 [Lit ''AMOUNT''] 450 y,
      Rule 40 (y + 15) 550 (y + 15)]"

text \<open>
  \<^verbatim>\<open>const price = safeNumber(it.price);
  const qty = safeNumber(it.quantity);
  const amount = (safeNumber(it.line_total) || (price * qty)) * daysCount;\<close>
\<close>

definition row_amount :: "int \<Rightarrow> order_item \<Rightarrow> exn + (jsnum \<times> jsnum \<times> jsnum)" where
  "row_amount days it =
     (case safeNumber (i_price it) of
        Inl e \<Rightarrow> Inl e
      | Inr price \<Rightarrow>
          (case safeNumber (i_quantity it) of
             Inl e \<Rightarrow> Inl e
           | Inr qty \<Rightarrow>
               (case safeNumber (i_line_total it) of
                  Inl e \<Rightarrow> Inl e
                | Inr lt \<Rightarrow>
                    Inr (price, qty,
                         jmul (if num_truthy lt then lt else jmul price qty)
                              (Fin (of_int days))))))"

text \<open>
  The four fields of a row at height \<open>y\<close>, in Helvetica 10, and the breakdown line under
  them, in Helvetica 8.
\<close>

definition row_line :: "order_item \<Rightarrow> jsnum \<Rightarrow> jsnum \<Rightarrow> jsnum \<Rightarrow> rat \<Rightarrow> draw list" where
  "row_line it price qty amount y =
     [Text Helvetica 10 [TextCol (i_product it)] 40 y,
      Text Helvetica 10 [Fixed2 price] 260 y,
      Text Helvetica 10 [NumText qty] 350 y,
      Text Helvetica 10 [Fixed2 amount] 450 y]"

definition breakdown_line :: "int \<Rightarrow> jsnum \<Rightarrow> jsnum \<Rightarrow> rat \<Rightarrow> draw" where
  "breakdown_line days price qty y =
     Text Helvetica 8
       [Lit ''('', NumText price, Lit ('' '' @ times_sign @ '' ''), NumText qty,
        Lit ('' '' @ times_sign @ '' ''), NumText (Fin (of_int days)), Lit '')'']
       450 (y + 10)"

text \<open>
  The block drawn after a row that started at height \<open>y\<close>: the rule under the row at
  \<open>y + 22\<close>, then, from \<open>y + 30\<close>, the summary title 20 lower in Helvetica-Bold 11, its
  three lines 18, 16 and 16 lower each in Helvetica 10, and a closing rule 30 lower, at
  \<open>y + 130\<close>.
\<close>

definition row_rule :: "rat \<Rightarrow> draw" where
  "row_rule y = Rule 40 (y + 22) 550 (y + 22)"

definition summary_title :: "rat \<Rightarrow> draw" where
  "summary_title y = Text HelveticaBold 11 [Lit ''PRICE CALCULATION SUMMARY''] 40 (y + 50)"

definition summary_block :: "int \<Rightarrow> jsnum \<Rightarrow> jsnum \<Rightarrow> jsnum \<Rightarrow> rat \<Rightarrow> draw list" where
  "summary_block days price qty amount y =
     [summary_title y,
      Text Helvetica 10
        [Lit (''Products Total (Per-day): '' @ rupee @ '' ''), Fixed2 (jmul price qty)]
        40 (y + 68),
      Text Helvetica 10 [Lit ''Number of days: '', NumText (Fin (of_int days))] 40 (y + 84),
      Text Helvetica 10 [Lit (''Final Total: '' @ rupee @ '' ''), Fixed2 amount] 40 (y + 100),
      Rule 40 (y + 130) 550 (y + 130)]"

text \<open>
  The loop over the items, with the cursor \<open>y\<close>, the running total \<open>grand\<close> and the
  document. For each item: the amount is computed; when \<open>y + 50 > doc.page.height - 60\<close>
  a page is added, the column header is drawn at 40 and \<open>y\<close> becomes 65; then the row,
  its breakdown, the rule under it and the summary block are drawn, \<open>grand\<close> grows by
  the amount and \<open>y\<close> by 130.
\<close>

definition place_row :: "rat \<Rightarrow> pdf \<Rightarrow> rat \<times> pdf" where
  "place_row y doc =
     (if y + 50 > page_height - 60 then (65, puts (column_header 40) (addPage doc))
      else (y, doc))"

definition item_block :: "int \<Rightarrow> order_item \<Rightarrow> jsnum \<Rightarrow> jsnum \<Rightarrow> jsnum \<Rightarrow> rat \<Rightarrow> draw list" where
  "item_block days it price qty amount y =
     row_line it price qty amount y @ [breakdown_line days price qty y, row_rule y] @
     summary_block days price qty amount y"

fun draw_items ::
  "int \<Rightarrow> order_item list \<Rightarrow> rat \<Rightarrow> jsnum \<Rightarrow> pdf \<Rightarrow> exn + (rat \<times> jsnum \<times> pdf)" where
  "draw_items days [] y grand doc = Inr (y, grand, doc)"
| "draw_items days (it # its) y grand doc =
     (case row_amount days it of
        Inl e \<Rightarrow> Inl e
      | Inr (price, qty, amount) \<Rightarrow>
          (case place_row y doc of
             (y1, doc1) \<Rightarrow>
               draw_items days its (y1 + 130) (jadd grand amount)
                 (puts (item_block days it price qty amount y1) doc1)))"

text \<open>
  The head of the first page: contact line, title and rule, then the centred lines, the
  title in Helvetica 26 and the rest in Helvetica 12.
\<close>

definition invoice_head :: "order \<Rightarrow> customer \<Rightarrow> int \<Rightarrow> draw list" where
  "invoice_head ord cust days =
     [Text Helvetica 12 [Lit ''9916067960, 8073024022''] 40 30,
      TextCentered Helvetica 26 [Lit ''SUBRAMANI ENTERPRISES''] 0 60,
      Rule 40 95 550 95,
      TextCentered Helvetica 12 [Lit ''DATE: '', DateDMY (o_order_date ord)] 0 130,
      TextCentered Helvetica 12 [Lit ''CUSTOMER NAME: '', Lit (c_name cust)] 0 155,
      TextCentered Helvetica 12 [Lit ''PHONE: '', Lit (c_phone cust)] 0 180,
      TextCentered Helvetica 12 [Lit ''ADDRESS: '', Lit (c_address cust)] 0 205,
      TextCentered Helvetica 12
        [Lit ''RENT: '', DateOrDash (o_rent_start ord), Lit '' - '',
         DateOrDash (o_rent_end ord), Lit '' ('', NumText (Fin (of_int days)),
         Lit ('' Day'' @ (if days > 1 then ''s'' else [])), Lit '')'']
        0 230]"

text \<open>
  \<open>let tableTop = doc.y + 30\<close>: the cursor \<open>doc.y\<close> is one line of Helvetica 12 below the
  rent line, which was printed at 230.
\<close>

definition table_top :: rat where
  "table_top = 230 + line_height Helvetica 12 + 30"

text \<open>
  The total box at height \<open>y\<close>, its label in Helvetica-Bold 13 and the amount in
  Helvetica-Bold 16, and the footer.
\<close>

definition total_box :: "rat \<Rightarrow> jsnum \<Rightarrow> draw list" where
  "total_box y grand =
     [Rect 350 y 200 50,
      Text HelveticaBold 13 [Lit ''TOTAL''] 360 (y + 8),
      Text HelveticaBold 16 [Lit (rupee @ '' ''), Fixed2 grand] 360 (y + 28)]"

definition footer :: "flow list" where
  "footer =
     [MoveDown 4,
      FlowCentered Helvetica 10
        [Lit ''5TH CROSS, CANNEL RIGHT SIDE, VENKATESHA NAGAR, SHIMOGA | 577202 | PHONE: 6363499137''],
      MoveDown 1,
      FlowCentered HelveticaBold 11 [Lit ''THANK YOU FOR YOUR BUSINESS!'']]"

text \<open>
  \<open>SELECT o.*, c.name, c.phone, c.address FROM orders o JOIN customers c
  ON o.customer_id = c.id WHERE o.id=$1 LIMIT 1\<close>
\<close>

definition order_with_customer :: "store \<Rightarrow> nat \<Rightarrow> (order \<times> customer) list" where
  "order_with_customer s oid =
     concat (map (\<lambda>r. map (Pair r) (filter (\<lambda>c. c_id c = o_customer_id r) (customers s)))
                 (filter (\<lambda>r. o_id r = oid) (orders s)))"

text \<open>\<open>SELECT * FROM order_items WHERE order_id=$1 ORDER BY id ASC\<close>\<close>

definition items_of :: "store \<Rightarrow> nat \<Rightarrow> order_item list" where
  "items_of s oid = sort_key i_id (filter (\<lambda>i. i_order_id i = oid) (order_items s))"

datatype invoice_response =
    NotFound404
  | PdfError500
  | Pdf string rat jsnum pdf

text \<open>
  \<open>GET /api/invoice/:orderId\<close>. \<open>orderId\<close> is the path parameter, a string. The answer
  carries the file name, the height of the total box, the grand total and the document.
\<close>

definition invoice :: "env \<Rightarrow> string \<Rightarrow> store \<Rightarrow> invoice_response" where
  "invoice E orderId s =
     (case to_id E (JStr orderId) of
        None \<Rightarrow> PdfError500
      | Some oid \<Rightarrow>
          (case order_with_customer s oid of
             [] \<Rightarrow> NotFound404
           | (ord, cust) # _ \<Rightarrow>
               let days = daysCount (o_rent_start ord) (o_rent_end ord);
                   doc = puts (invoice_head ord cust days @ column_header table_top)
                           \<lparr>page_no = 0, drawn = [], flowed = []\<rparr>
               in (case draw_items days (items_of s oid) (table_top + 25) (Fin 0) doc of
                     Inl e \<Rightarrow> PdfError500
                   | Inr (y, grand, doc') \<Rightarrow>
                       Pdf (''invoice-'' @
                              (if o_invoice_no ord \<noteq> [] then o_invoice_no ord else orderId) @
                              ''.pdf'')
                           (y + 30) grand
                           (flows footer (puts (total_box (y + 30) grand) doc')))))"

section \<open>What the specification says of a written order\<close>

text \<open>
  The row stored for an item, in the words of the specification: it belongs to the order,
  its price and quantity are the coerced price and quantity of the item, and its line
  total is their product (the rental days are not applied).
\<close>

definition stores_item :: "nat \<Rightarrow> jsval \<Rightarrow> order_item \<Rightarrow> bool" where
  "stores_item oid it r =
     (case (get_prop it ''price'', get_prop it ''quantity'') of
        (Inr pv, Inr qv) \<Rightarrow>
          (case (safeNumber pv, safeNumber qv) of
             (Inr p, Inr q) \<Rightarrow>
               i_order_id r = oid \<and> i_price r = JNum p \<and> i_quantity r = JNum q \<and>
               i_line_total r = JNum (jmul p q)
           | _ \<Rightarrow> False)
      | _ \<Rightarrow> False)"

text \<open>The sum of a list of numbers, added from the left starting from 0.\<close>

definition js_sum :: "jsnum list \<Rightarrow> jsnum" where
  "js_sum ns = foldl jadd (Fin 0) ns"

text \<open>
  The total invariant for the order \<open>oid\<close>: the rows \<open>new\<close> are the stored rows of the
  items \<open>its\<close>, their line totals are the numbers \<open>lines\<close>, the order exists, and the total
  of the order is the sum of \<open>lines\<close>.
\<close>

definition total_is_sum ::
  "nat \<Rightarrow> jsval list \<Rightarrow> order_item list \<Rightarrow> jsnum list \<Rightarrow> store \<Rightarrow> bool" where
  "total_is_sum oid its new lines s =
     (list_all2 (stores_item oid) its new \<and>
      map i_line_total new = map JNum lines \<and>
      list_ex (\<lambda>r. o_id r = oid) (orders s) \<and>
      list_all (\<lambda>r. o_id r \<noteq> oid \<or> o_total r = JNum (js_sum lines)) (orders s))"

text \<open>
  The merge-patch of a date column, in the words of the specification: a value supplied
  in the request (a truthy one) overwrites the column with the date the store reads from
  it; otherwise the column keeps its value.
\<close>

definition date_patched :: "env \<Rightarrow> jsval \<Rightarrow> date option \<Rightarrow> date option \<Rightarrow> bool" where
  "date_patched E v old new = (if truthy v then new = to_date E v else new = old)"

text \<open>An order row after a replacement of its items with the total \<open>tot\<close>.\<close>

definition order_patched :: "env \<Rightarrow> update_req \<Rightarrow> jsnum \<Rightarrow> order \<Rightarrow> order \<Rightarrow> bool" where
  "order_patched E req tot old new =
     (o_id new = o_id old \<and> o_invoice_no new = o_invoice_no old \<and>
      o_customer_id new = o_customer_id old \<and> o_total new = JNum tot \<and>
      date_patched E (u_order_date req) (o_order_date old) (o_order_date new) \<and>
      date_patched E (u_rent_start req) (o_rent_start old) (o_rent_start new) \<and>
      date_patched E (u_rent_end req) (o_rent_end old) (o_rent_end new))"

section \<open>An example store and request\<close>

text \<open>
  An instance of the store's conversions: a text column keeps a string as it is, a date
  column reads \<open>YYYY-MM-DD\<close>, an id column reads a non-negative integer or its decimal
  digits.
\<close>

definition iso_date :: "jsval \<Rightarrow> date option" where
  "iso_date v =
     (case v of
        JStr s \<Rightarrow>
          (if length s = 10 \<and> s ! 4 = CHR ''-'' \<and> s ! 7 = CHR ''-'' then
             (case (int_literal 10 (take 4 s), int_literal 10 (take 2 (drop 5 s)),
                    int_literal 10 (drop 8 s)) of
                (Some y, Some m, Some d) \<Rightarrow> Some (ymd (int y) (int m) (int d))
              | _ \<Rightarrow> None)
           else None)
      | _ \<Rightarrow> None)"

definition example_env :: env where
  "example_env =
     \<lparr>to_text = (\<lambda>v. case v of JStr s \<Rightarrow> s | _ \<Rightarrow> []),
      to_date = iso_date,
      to_id = (\<lambda>v. case v of
                 JNum (Fin r) \<Rightarrow> if 0 \<le> r \<and> of_int \<lfloor>r\<rfloor> = r then Some (nat \<lfloor>r\<rfloor>) else None
               | JStr s \<Rightarrow> int_literal 10 s
               | _ \<Rightarrow> None)\<rparr>"

definition empty_store :: store where
  "empty_store =
     \<lparr>customers = [], orders = [], order_items = [],
      seq_customer = 1, seq_order = 1, seq_item = 1\<rparr>"

text \<open>
  The end-to-end example of the specification: a chair at 50, four of them, and a table
  at 200, rented from 2024-01-01 to 2024-01-03.
\<close>

definition chair_table :: jsval where
  "chair_table =
     JArr [JObj [(''product'', JStr ''Chair''), (''price'', JNum (Fin 50)),
                 (''quantity'', JNum (Fin 4))],
           JObj [(''product'', JStr ''Table''), (''price'', JNum (Fin 200)),
                 (''quantity'', JNum (Fin 1))]]"

definition example_req :: order_req where
  "example_req =
     \<lparr>name = JStr ''Asha'', phone = JStr ''9000000001'', alt_phone = JUndefined,
      address = JStr ''Shimoga'', rent_start = JStr ''2024-01-01'',
      rent_end = JStr ''2024-01-03'', items = chair_table, order_date = JUndefined\<rparr>"

text \<open>The store after the example request, through either entry point.\<close>

definition example_store :: store where
  "example_store =
     \<lparr>customers =
        [\<lparr>c_id = 1, c_name = ''Asha'', c_phone = ''9000000001'', c_alt_phone = None,
          c_address = ''Shimoga'', c_rent_status = ''ACTIVE''\<rparr>],
      orders =
        [\<lparr>o_id = 1, o_invoice_no = ''inv-1'', o_customer_id = 1,
          o_order_date = Some (ymd 2023 12 31), o_rent_start = Some (ymd 2024 1 1),
          o_rent_end = Some (ymd 2024 1 3), o_total = JNum (Fin 400)\<rparr>],
      order_items =
        [\<lparr>i_id = 1, i_order_id = 1, i_product = Some ''Chair'', i_price = JNum (Fin 50),
          i_quantity = JNum (Fin 4), i_line_total = JNum (Fin 200)\<rparr>,
         \<lparr>i_id = 2, i_order_id = 1, i_product = Some ''Table'', i_price = JNum (Fin 200),
          i_quantity = JNum (Fin 1), i_line_total = JNum (Fin 200)\<rparr>],
      seq_customer = 2, seq_order = 2, seq_item = 3\<rparr>"

text \<open>A replacement of the items of order 1 that supplies only \<open>rent_end\<close>.\<close>

definition example_update :: update_req where
  "example_update =
     \<lparr>u_orderId = JNum (Fin 1), u_order_date = JUndefined, u_rent_start = JUndefined,
      u_rent_end = JStr ''2024-01-05'',
      u_items = JArr [JObj [(''product'', JStr ''Lamp''), (''price'', JStr ''12.50''),
                            (''quantity'', JNum (Fin 2))]]\<rparr>"

text \<open>A request for an order that is not there: id 99, with the items of the example.\<close>

definition missing_update :: update_req where
  "missing_update =
     \<lparr>u_orderId = JNum (Fin 99), u_order_date = JUndefined, u_rent_start = JUndefined,
      u_rent_end = JUndefined, u_items = chair_table\<rparr>"


section \<open>What the specification says of the layout\<close>

text \<open>
  Where the loop put an item: whether it started a page for it, the height of the row,
  and the price, quantity and amount it printed.
\<close>

record placement =
  pl_fresh :: bool
  pl_y :: rat
  pl_price :: jsnum
  pl_qty :: jsnum
  pl_amount :: jsnum

text \<open>
  The drawing calls of a placed item: the column header at 40 when a page was started for
  it, then the row, its breakdown, the rule and the summary block.
\<close>

definition placed_calls :: "int \<Rightarrow> order_item \<Rightarrow> placement \<Rightarrow> draw list" where
  "placed_calls days it p =
     (if pl_fresh p then column_header 40 else []) @
     item_block days it (pl_price p) (pl_qty p) (pl_amount p) (pl_y p)"

text \<open>
  The page-break rule of the handler along a list of placements, from the cursor \<open>y\<close>:
  when \<open>y + 50\<close> exceeds the page height less 60, a page is started for the item and its
  row is at 65; otherwise its row is at \<open>y\<close>. The cursor then moves 130 down.
\<close>

fun placed_ok :: "rat \<Rightarrow> placement list \<Rightarrow> bool" where
  "placed_ok y [] = True"
| "placed_ok y (p # ps) =
     ((if y + 50 > page_height - 60 then pl_fresh p \<and> pl_y p = 65
       else \<not> pl_fresh p \<and> pl_y p = y) \<and>
      placed_ok (pl_y p + 130) ps)"

text \<open>The cursor after the last placement.\<close>

fun end_y :: "rat \<Rightarrow> placement list \<Rightarrow> rat" where
  "end_y y [] = y"
| "end_y y (p # ps) = end_y (pl_y p + 130) ps"


fun is_column_title :: "draw \<Rightarrow> bool" where
  "is_column_title (Text f sz [Lit t] x y) = (t = ''DESCRIPTION'')"
| "is_column_title _ = False"

text \<open>The pages on which the calls of a kind landed, in the order of the calls.\<close>

definition pages_of :: "(draw \<Rightarrow> bool) \<Rightarrow> pdf \<Rightarrow> nat list" where
  "pages_of kind doc = map fst (filter (\<lambda>e. kind (snd e)) (drawn doc))"

text \<open>The calls that landed on a page.\<close>

definition calls_on :: "nat \<Rightarrow> pdf \<Rightarrow> draw list" where
  "calls_on pg doc = map snd (filter (\<lambda>e. fst e = pg) (drawn doc))"

text \<open>The grand total and the document of an invoice that was rendered.\<close>

fun grand_total :: "invoice_response \<Rightarrow> jsnum option" where
  "grand_total (Pdf fname y grand doc) = Some grand"
| "grand_total _ = None"

fun the_doc :: "invoice_response \<Rightarrow> pdf" where
  "the_doc (Pdf fname y grand doc) = doc"
| "the_doc _ = \<lparr>page_no = 0, drawn = [], flowed = []\<rparr>"

text \<open>
  The rendered amount of an item, in the words of the specification: the stored line
  total times the day count when the line total coerces to a number other than zero, and
  the coerced price times the coerced quantity times the day count otherwise.
\<close>

definition rendered_amount :: "int \<Rightarrow> order_item \<Rightarrow> jsnum \<Rightarrow> bool" where
  "rendered_amount days it a =
     (case (safeNumber (i_price it), safeNumber (i_quantity it), safeNumber (i_line_total it)) of
        (Inr p, Inr q, Inr lt) \<Rightarrow>
          a = (if lt = Fin 0 then jmul (jmul p q) (Fin (of_int days))
               else jmul lt (Fin (of_int days)))
      | _ \<Rightarrow> False)"

subsection \<open>Example rows for the invoice\<close>

text \<open>
  The store of the example with the line total of the chairs set to zero, as a writer
  other than these handlers could leave it.
\<close>

definition zero_line_store :: store where
  "zero_line_store =
     example_store\<lparr>order_items :=
       [\<lparr>i_id = 1, i_order_id = 1, i_product = Some ''Chair'', i_price = JNum (Fin 50),
         i_quantity = JNum (Fin 4), i_line_total = JNum (Fin 0)\<rparr>,
        \<lparr>i_id = 2, i_order_id = 1, i_product = Some ''Table'', i_price = JNum (Fin 200),
         i_quantity = JNum (Fin 1), i_line_total = JNum (Fin 200)\<rparr>]\<rparr>"

text \<open>The store of the example with one item of price \<open>10^21\<close>, as the handlers store it.\<close>

definition huge_store :: store where
  "huge_store =
     example_store\<lparr>order_items :=
       [\<lparr>i_id = 1, i_order_id = 1, i_product = Some ''Hall'', i_price = JNum (Fin (10 ^ 21)),
         i_quantity = JNum (Fin 1), i_line_total = JNum (Fin (10 ^ 21))\<rparr>]\<rparr>"

text \<open>A row as the driver returns it from numeric columns, with no line total.\<close>

definition bare_row :: order_item where
  "bare_row =
     \<lparr>i_id = 7, i_order_id = 1, i_product = Some ''Chair'', i_price = JStr ''50.00'',
      i_quantity = JStr ''4'', i_line_total = JNull\<rparr>"

text \<open>
  The store of the example with four rows of chairs in its order, as the handlers store
  them.
\<close>

definition chair_row :: "nat \<Rightarrow> order_item" where
  "chair_row n =
     \<lparr>i_id = n, i_order_id = 1, i_product = Some ''Chair'', i_price = JNum (Fin 50),
      i_quantity = JNum (Fin 4), i_line_total = JNum (Fin 200)\<rparr>"

definition four_store :: store where
  "four_store =
     example_store\<lparr>order_items := [chair_row 1, chair_row 2, chair_row 3, chair_row 4]\<rparr>"

section \<open>Properties of the price computations\<close>

text \<open>The definitions that evaluate \<open>safeNumber\<close> on a concrete value.\<close>

lemmas number_defs = safeNumber_def StringToNumber_def trim_def ws_seqs_def ws_prefix_len_def
  non_decimal_literal_def decimal_literal_def unsigned_decimal_def is_digit_def digit_in_def
  exponent_part_def int_literal_def norm_num_def overflow_bound_def pow10_def

subsection \<open>Rental days\<close>

lemma absFloor_mult: "0 < d \<Longrightarrow> absFloor (k * d) d = k"
proof -
  assume d: "0 < d"
  have q: "(- k) * d div d = - k" using d by (subst nonzero_mult_div_cancel_right) simp_all
  have m: "- (k * d) = (- k) * d" by simp
  show ?thesis
  proof (cases "k < 0")
    case True
    with d have "k * d < 0" by (simp add: mult_less_0_iff)
    then have "absFloor (k * d) d = - ((- (k * d)) div d)" by (simp add: absFloor_def)
    also have "\<dots> = - (((- k) * d) div d)" by (simp only: m)
    also have "\<dots> = k" by (simp only: q minus_minus)
    finally show ?thesis .
  next
    case False
    with d have "\<not> k * d < 0" by (simp add: mult_less_0_iff)
    with d show ?thesis by (simp add: absFloor_def)
  qed
qed

lemma diff_day_ymd:
  "diff_day (ymd y2 m2 d2) (ymd y1 m1 d1) = civil_day y2 m2 d2 - civil_day y1 m1 d1"
proof -
  have "ymd y2 m2 d2 - ymd y1 m1 d1 = (civil_day y2 m2 d2 - civil_day y1 m1 d1) * ms_per_day"
    by (simp add: ymd_def algebra_simps)
  moreover have "0 < ms_per_day" by (simp add: ms_per_day_def)
  ultimately show ?thesis by (simp add: diff_day_def absFloor_mult)
qed

text \<open>
  C2. The day count is 1 when the start or the end is absent; otherwise it is the
  difference of end and start in whole days plus 1, and 1 when that is zero or negative.
  Between two calendar dates the difference in whole days is the difference of their day
  numbers. The count of a date to itself is 1, and from 2024-01-01 to 2024-01-03 it is 3.
\<close>

theorem daysCount_rule:
  "daysCount None e = 1 \<and> daysCount s None = 1 \<and>
   daysCount (Some s') (Some e') =
     (if diff_day e' s' + 1 \<le> 0 then 1 else diff_day e' s' + 1) \<and>
   diff_day (ymd y2 m2 d2) (ymd y1 m1 d1) = civil_day y2 m2 d2 - civil_day y1 m1 d1 \<and>
   daysCount (Some d) (Some d) = 1 \<and>
   daysCount (Some (ymd 2024 1 1)) (Some (ymd 2024 1 3)) = 3"
proof -
  have a: "daysCount None e = 1" by (simp add: daysCount_def)
  have b: "daysCount s None = 1" by (cases s) (simp_all add: daysCount_def)
  have c: "daysCount (Some s') (Some e') =
             (if diff_day e' s' + 1 \<le> 0 then 1 else diff_day e' s' + 1)"
    by (simp add: daysCount_def Let_def)
  have d: "daysCount (Some d) (Some d) = 1"
    by (simp add: daysCount_def diff_day_def absFloor_def)
  have e: "daysCount (Some (ymd 2024 1 1)) (Some (ymd 2024 1 3)) = 3"
    by (simp add: daysCount_def Let_def diff_day_ymd civil_day_def)
  from a b c d e diff_day_ymd show ?thesis by blast
qed

subsection \<open>Coercion\<close>

lemma ToNumber_completes: "\<not> no_primitive v \<Longrightarrow> \<exists>n. ToNumber v = Inr n"
  by (induction v rule: ToNumber.induct) auto

lemma ToNumber_raises: "no_primitive v \<Longrightarrow> ToNumber v = Inl TypeError"
  by (induction v rule: ToNumber.induct) auto

lemma safeNumber_Inr: "safeNumber v = Inr n \<Longrightarrow> \<exists>r. n = Fin r"
  by (cases "ToNumber v"; cases n) (auto simp: safeNumber_def split: if_splits elim: isFinite.elims)

lemma item_values_Inr:
  "item_values it = Inr (l, p, q, line) \<Longrightarrow>
   \<exists>pv qv. get_prop it ''price'' = Inr pv \<and> safeNumber pv = Inr p \<and>
           get_prop it ''quantity'' = Inr qv \<and> safeNumber qv = Inr q \<and>
           get_prop it ''product'' = Inr l \<and> line = jmul p q"
  by (auto simp: item_values_def split: sum.splits)

text \<open>
  C3, as the code has it. The claim says that price and quantity are coerced to a
  non-negative number and that no input raises an error; \<open>safeNumber\<close> has no such
  clamp, and a negative price gives a negative line amount. And \<open>Number\<close> raises a
  TypeError on the JSON value \<open>{"toString": 1}\<close>, which has no primitive value.
\<close>

theorem negative_price_kept:
  "item_values (JObj [(''product'', JStr ''Chair''), (''price'', JNum (Fin (- 5))),
                      (''quantity'', JNum (Fin 2))])
     = Inr (JStr ''Chair'', Fin (- 5), Fin 2, Fin (- 10)) \<and>
   safeNumber (JNum (Fin (- 5))) = Inr (Fin (- 5)) \<and> \<not> (0 :: rat) \<le> - 5 \<and>
   safeNumber (JObj [(''toString'', JNum (Fin 1))]) = Inl TypeError"
  by (simp add: item_values_def safeNumber_def norm_num_def overflow_bound_def)

text \<open>
  C3, amended. Every input on which \<open>Number\<close> completes (any value but an object with an
  own \<open>toString\<close> property, or an array that holds one) is coerced to a finite number of
  either sign: a finite numeric value is kept as it is, and a non-numeric or non-finite
  one becomes zero, without an error. The line amount of an item is the product of its
  coerced price and its coerced quantity.
\<close>

theorem safeNumber_coerces:
  "(\<not> no_primitive v \<longrightarrow>
      (\<exists>r. safeNumber v = Inr (Fin r) \<and>
           (ToNumber v = Inr (Fin r) \<or>
            r = 0 \<and> (ToNumber v = Inr NaN \<or> ToNumber v = Inr PInf \<or> ToNumber v = Inr NInf)))) \<and>
   (item_values it = Inr (l, p, q, line) \<longrightarrow>
      (\<exists>pv qv a b. get_prop it ''price'' = Inr pv \<and> safeNumber pv = Inr (Fin a) \<and>
                   get_prop it ''quantity'' = Inr qv \<and> safeNumber qv = Inr (Fin b) \<and>
                   p = Fin a \<and> q = Fin b \<and> line = jmul (Fin a) (Fin b)))"
proof (intro conjI impI)
  assume "\<not> no_primitive v"
  then obtain n where n: "ToNumber v = Inr n" using ToNumber_completes by blast
  show "\<exists>r. safeNumber v = Inr (Fin r) \<and>
           (ToNumber v = Inr (Fin r) \<or>
            r = 0 \<and> (ToNumber v = Inr NaN \<or> ToNumber v = Inr PInf \<or> ToNumber v = Inr NInf))"
    by (cases n) (simp_all add: safeNumber_def n)
next
  assume iv: "item_values it = Inr (l, p, q, line)"
  from item_values_Inr[OF iv] obtain pv qv where
    h: "get_prop it ''price'' = Inr pv" "safeNumber pv = Inr p"
       "get_prop it ''quantity'' = Inr qv" "safeNumber qv = Inr q" "line = jmul p q"
    by blast
  from safeNumber_Inr[OF h(2)] obtain a where a: "p = Fin a" by blast
  from safeNumber_Inr[OF h(4)] obtain b where b: "q = Fin b" by blast
  from h a b show "\<exists>pv qv a b. get_prop it ''price'' = Inr pv \<and> safeNumber pv = Inr (Fin a) \<and>
                   get_prop it ''quantity'' = Inr qv \<and> safeNumber qv = Inr (Fin b) \<and>
                   p = Fin a \<and> q = Fin b \<and> line = jmul (Fin a) (Fin b)"
    by blast
qed

theorem safeNumber_coerces_witness:
  "\<not> no_primitive (JStr ''abc'') \<and>
   item_values (JObj [(''product'', JStr ''Chair''), (''price'', JStr ''12.50''),
                      (''quantity'', JNum (Fin 4))])
     = Inr (JStr ''Chair'', Fin (25 / 2), Fin 4, Fin 50) \<and>
   (\<exists>r. safeNumber (JStr ''abc'') = Inr (Fin r) \<and>
        (ToNumber (JStr ''abc'') = Inr (Fin r) \<or>
         r = 0 \<and> (ToNumber (JStr ''abc'') = Inr NaN \<or> ToNumber (JStr ''abc'') = Inr PInf \<or>
                  ToNumber (JStr ''abc'') = Inr NInf))) \<and>
   (\<exists>pv qv a b.
       get_prop (JObj [(''product'', JStr ''Chair''), (''price'', JStr ''12.50''),
                       (''quantity'', JNum (Fin 4))]) ''price'' = Inr pv \<and>
       safeNumber pv = Inr (Fin a) \<and>
       get_prop (JObj [(''product'', JStr ''Chair''), (''price'', JStr ''12.50''),
                       (''quantity'', JNum (Fin 4))]) ''quantity'' = Inr qv \<and>
       safeNumber qv = Inr (Fin b) \<and>
       Fin (25 / 2) = Fin a \<and> Fin 4 = Fin b \<and> Fin 50 = jmul (Fin a) (Fin b))"
proof -
  have h1: "\<not> no_primitive (JStr ''abc'')" by simp
  have h2: "item_values (JObj [(''product'', JStr ''Chair''), (''price'', JStr ''12.50''),
                               (''quantity'', JNum (Fin 4))])
              = Inr (JStr ''Chair'', Fin (25 / 2), Fin 4, Fin 50)"
    by (simp add: item_values_def number_defs)
  from h1 h2
    safeNumber_coerces[where v = "JStr ''abc''"
      and it = "JObj [(''product'', JStr ''Chair''), (''price'', JStr ''12.50''),
                      (''quantity'', JNum (Fin 4))]"
      and l = "JStr ''Chair''" and p = "Fin (25 / 2)" and q = "Fin 4" and line = "Fin 50"]
  show ?thesis by blast
qed

section \<open>Properties of the order transactions\<close>

text \<open>The definitions that evaluate a write on a concrete store.\<close>

lemmas write_defs = new_customer_def new_customer_tx_def generate_bill_def generate_bill_tx_def
  insert_customer_def find_or_create_customer_def update_customer_def insert_order_def
  insert_item_def item_values_def set_total_def items_or_empty_def text_param_def
  text_or_null_def date_or_null_def update_order_def update_order_tx_def delete_items_def
  update_order_meta_def coalesce_def

lemmas example_defs = example_env_def iso_date_def empty_store_def chair_table_def
  example_req_def example_store_def example_update_def int_literal_def digit_in_def

lemma example_new_customer:
  "new_customer example_env ''inv-1'' (JStr ''2023-12-31'') example_req empty_store
     = (NewCustomerOk 1 1, example_store)"
  by (simp add: write_defs example_defs safeNumber_def norm_num_def overflow_bound_def)

lemma example_generate_bill:
  "generate_bill example_env ''inv-1'' (JStr ''2023-12-31'') example_req empty_store
     = (BillOk 1 ''inv-1'', example_store)"
  by (simp add: write_defs example_defs safeNumber_def norm_num_def overflow_bound_def)

lemma example_update_order:
  "fst (update_order example_env example_update example_store) = UpdateOk (Fin 25)"
  by (simp add: write_defs example_defs number_defs)

subsection \<open>The total of an order\<close>

lemma insert_item_stores:
  assumes "item_values it = Inr vals"
  shows "\<exists>r. order_items (insert_item E oid vals s) = order_items s @ [r] \<and>
             stores_item oid it r \<and> i_line_total r = JNum (snd (snd (snd vals))) \<and>
             orders (insert_item E oid vals s) = orders s \<and>
             customers (insert_item E oid vals s) = customers s"
proof -
  obtain l p q line where v: "vals = (l, p, q, line)" by (cases vals) auto
  from item_values_Inr[OF assms[unfolded v]] show ?thesis
    by (auto simp: v insert_item_def stores_item_def)
qed

lemma insert_items_spec:
  "insert_items E oid its tot s = Inr (tot', s') \<Longrightarrow>
   \<exists>new lines. order_items s' = order_items s @ new \<and> list_all2 (stores_item oid) its new \<and>
      map i_line_total new = map JNum lines \<and> tot' = foldl jadd tot lines \<and>
      orders s' = orders s \<and> customers s' = customers s"
proof (induction its arbitrary: tot s)
  case Nil
  then show ?case by auto
next
  case (Cons it its)
  from Cons.prems obtain vals where iv: "item_values it = Inr vals"
    and rest: "insert_items E oid its (jadd tot (snd (snd (snd vals)))) (insert_item E oid vals s) = Inr (tot', s')"
    by (auto split: sum.splits)
  from insert_item_stores[OF iv, of E oid s] obtain r where
    r: "order_items (insert_item E oid vals s) = order_items s @ [r]" "stores_item oid it r"
       "i_line_total r = JNum (snd (snd (snd vals)))"
       "orders (insert_item E oid vals s) = orders s" "customers (insert_item E oid vals s) = customers s"
    by blast
  from Cons.IH[OF rest] obtain new lines where
    n: "order_items s' = order_items (insert_item E oid vals s) @ new" "list_all2 (stores_item oid) its new"
       "map i_line_total new = map JNum lines" "tot' = foldl jadd (jadd tot (snd (snd (snd vals)))) lines"
       "orders s' = orders (insert_item E oid vals s)" "customers s' = customers (insert_item E oid vals s)"
    by blast
  show ?case
    apply (rule exI[of _ "r # new"])
    apply (rule exI[of _ "snd (snd (snd vals)) # lines"])
    using r n by simp
qed

lemma set_total_all:
  "list_all (\<lambda>r. o_id r \<noteq> oid \<or> o_total r = JNum t) (orders (set_total oid t s))"
proof -
  have "list_all (\<lambda>r. o_id r \<noteq> oid \<or> o_total r = JNum t)
          (map (\<lambda>r. if o_id r = oid then r\<lparr>o_total := JNum t\<rparr> else r) xs)" for xs
    by (induction xs) auto
  then show ?thesis by (simp add: set_total_def)
qed

lemma set_total_ex:
  "list_ex (\<lambda>r. o_id r = oid) (orders s) \<Longrightarrow> list_ex (\<lambda>r. o_id r = oid) (orders (set_total oid t s))"
proof -
  have "list_ex (\<lambda>r. o_id r = oid) xs \<Longrightarrow> list_ex (\<lambda>r. o_id r = oid)
          (map (\<lambda>r. if o_id r = oid then r\<lparr>o_total := JNum t\<rparr> else r) xs)" for xs
    by (induction xs) auto
  then show "list_ex (\<lambda>r. o_id r = oid) (orders s) \<Longrightarrow> ?thesis" by (simp add: set_total_def)
qed

lemma set_total_frame:
  "order_items (set_total oid t s) = order_items s" "customers (set_total oid t s) = customers s"
  by (simp_all add: set_total_def)

lemma insert_order_Inr:
  "insert_order E uuid cid od rs re s = Inr (oid, s2) \<Longrightarrow>
   list_ex (\<lambda>r. o_id r = oid) (orders s2) \<and> order_items s2 = order_items s \<and>
   customers s2 = customers s"
  by (auto simp: insert_order_def split: option.splits sum.splits)

lemma insert_customer_items: "order_items (snd (insert_customer E n p a ad s)) = order_items s"
  by (simp add: insert_customer_def)

lemma find_or_create_items:
  "order_items (snd (find_or_create_customer E n p a ad s)) = order_items s"
  by (simp add: find_or_create_customer_def insert_customer_def update_customer_def split: list.splits)

lemma create_total:
  assumes io: "insert_order E uuid cid od rs re s1 = Inr (oid, s2)"
    and ii: "insert_items E oid its (Fin 0) s2 = Inr (tot, s3)"
  shows "\<exists>new lines. order_items (set_total oid tot s3) = order_items s1 @ new \<and>
           total_is_sum oid its new lines (set_total oid tot s3)"
proof -
  from insert_order_Inr[OF io] have o: "list_ex (\<lambda>r. o_id r = oid) (orders s2)"
    "order_items s2 = order_items s1" by simp_all
  from insert_items_spec[OF ii] obtain new lines where
    n: "order_items s3 = order_items s2 @ new" "list_all2 (stores_item oid) its new"
       "map i_line_total new = map JNum lines" "tot = foldl jadd (Fin 0) lines"
       "orders s3 = orders s2"
    by blast
  have "total_is_sum oid its new lines (set_total oid tot s3)"
    unfolding total_is_sum_def js_sum_def
    using n o set_total_all[of oid tot s3] set_total_ex[of oid s3 tot] by simp
  with n o show ?thesis by (auto simp: set_total_frame)
qed

lemma new_customer_total:
  assumes "new_customer E uuid today req s = (NewCustomerOk cid oid, s')"
  shows "\<exists>new lines. order_items s' = order_items s @ new \<and>
           total_is_sum oid (elements (items req)) new lines s'"
proof -
  from assms have ni: "\<not> no_items (items_or_empty (items req))"
    by (auto simp: new_customer_def split: if_splits)
  then have el: "items_or_empty (items req) = items req"
    by (auto simp: items_or_empty_def)
  obtain c s1 where ic: "insert_customer E (name req) (phone req) (alt_phone req) (address req) s = (c, s1)"
    by (cases "insert_customer E (name req) (phone req) (alt_phone req) (address req) s")
  from assms ic obtain s2 tot s3 where
    io: "insert_order E uuid c (if truthy (order_date req) then order_date req else today)
           (rent_start req) (rent_end req) s1 = Inr (oid, s2)"
    and ii: "insert_items E oid (elements (items req)) (Fin 0) s2 = Inr (tot, s3)"
    and s': "s' = set_total oid tot s3"
    by (auto simp: new_customer_def new_customer_tx_def el split: if_splits sum.splits prod.splits)
  from insert_customer_items[of E "name req" "phone req" "alt_phone req" "address req" s] ic
  have "order_items s1 = order_items s" by simp
  with create_total[OF io ii] s' show ?thesis by simp
qed


lemma generate_bill_total:
  assumes "generate_bill E uuid today req s = (BillOk oid invno, s')"
  shows "\<exists>new lines. order_items s' = order_items s @ new \<and>
           total_is_sum oid (elements (items req)) new lines s'"
proof -
  from assms have ni: "\<not> no_items (items_or_empty (items req))"
    by (auto simp: generate_bill_def split: if_splits)
  then have el: "items_or_empty (items req) = items req"
    by (auto simp: items_or_empty_def)
  obtain c s1 where ic: "find_or_create_customer E (name req) (phone req) (alt_phone req) (address req) s = (c, s1)"
    by (cases "find_or_create_customer E (name req) (phone req) (alt_phone req) (address req) s")
  from assms ic obtain s2 tot s3 where
    io: "insert_order E uuid c today (rent_start req) (rent_end req) s1 = Inr (oid, s2)"
    and ii: "insert_items E oid (elements (items req)) (Fin 0) s2 = Inr (tot, s3)"
    and s': "s' = set_total oid tot s3"
    by (auto simp: generate_bill_def generate_bill_tx_def el split: if_splits sum.splits prod.splits)
  from find_or_create_items[of E "name req" "phone req" "alt_phone req" "address req" s] ic
  have "order_items s1 = order_items s" by simp
  with create_total[OF io ii] s' show ?thesis by simp
qed

lemma stores_item_order: "stores_item oid it r \<Longrightarrow> i_order_id r = oid"
  by (auto simp: stores_item_def split: sum.splits)

lemma stored_rows_of_order:
  "list_all2 (stores_item oid) its new \<Longrightarrow> filter (\<lambda>i. i_order_id i = oid) new = new"
  by (induction its new rule: list_all2_induct) (auto dest: stores_item_order)

lemma update_order_meta_all:
  "list_all (\<lambda>r. o_id r \<noteq> oid \<or> o_total r = JNum t) (orders (update_order_meta oid t od rs re s))"
proof -
  have "list_all (\<lambda>r. o_id r \<noteq> oid \<or> o_total r = JNum t)
          (map (\<lambda>r. if o_id r = oid
                   then r\<lparr>o_total := JNum t,
                          o_order_date := coalesce od (o_order_date r),
                          o_rent_start := coalesce rs (o_rent_start r),
                          o_rent_end := coalesce re (o_rent_end r)\<rparr>
                   else r) xs)" for xs
    by (induction xs) auto
  then show ?thesis by (simp add: update_order_meta_def)
qed

lemma update_order_meta_ex:
  assumes "list_ex (\<lambda>r. o_id r = oid) (orders s)"
  shows "list_ex (\<lambda>r. o_id r = oid) (orders (update_order_meta oid t od rs re s))"
proof -
  have "list_ex (\<lambda>r. o_id r = oid) xs \<Longrightarrow> list_ex (\<lambda>r. o_id r = oid)
          (map (\<lambda>r. if o_id r = oid
                   then r\<lparr>o_total := JNum t,
                          o_order_date := coalesce od (o_order_date r),
                          o_rent_start := coalesce rs (o_rent_start r),
                          o_rent_end := coalesce re (o_rent_end r)\<rparr>
                   else r) xs)" for xs
    by (induction xs) auto
  with assms show ?thesis by (simp add: update_order_meta_def)
qed

lemma update_order_Ok:
  assumes "update_order E req s = (UpdateOk tot, s')"
  shows "\<exists>oid s2 od rs re. to_id E (u_orderId req) = Some oid \<and>
           list_ex (\<lambda>r. o_id r = oid) (orders s) \<and>
           insert_items E oid (elements (u_items req)) (Fin 0) (delete_items oid s) = Inr (tot, s2) \<and>
           date_or_null E (u_order_date req) = Inr od \<and>
           date_or_null E (u_rent_start req) = Inr rs \<and>
           date_or_null E (u_rent_end req) = Inr re \<and>
           s' = update_order_meta oid tot od rs re s2"
  using assms
  by (auto simp: update_order_def update_order_tx_def split: if_splits sum.splits option.splits)

lemma update_order_total:
  assumes "update_order E req s = (UpdateOk tot, s')"
  shows "\<exists>oid lines. to_id E (u_orderId req) = Some oid \<and> tot = js_sum lines \<and>
           total_is_sum oid (elements (u_items req))
             (filter (\<lambda>i. i_order_id i = oid) (order_items s')) lines s'"
proof -
  from update_order_Ok[OF assms] obtain oid s2 od rs re where
    h: "to_id E (u_orderId req) = Some oid" "list_ex (\<lambda>r. o_id r = oid) (orders s)"
       "insert_items E oid (elements (u_items req)) (Fin 0) (delete_items oid s) = Inr (tot, s2)"
       "s' = update_order_meta oid tot od rs re s2"
    by blast
  from insert_items_spec[OF h(3)] obtain new lines where
    n: "order_items s2 = order_items (delete_items oid s) @ new"
       "list_all2 (stores_item oid) (elements (u_items req)) new"
       "map i_line_total new = map JNum lines" "tot = foldl jadd (Fin 0) lines"
       "orders s2 = orders (delete_items oid s)"
    by blast
  have f: "filter (\<lambda>i. i_order_id i = oid) (order_items s') = new"
    using n(1) stored_rows_of_order[OF n(2)]
    by (simp add: h(4) update_order_meta_def delete_items_def)
  have ex: "list_ex (\<lambda>r. o_id r = oid) (orders s2)"
    using h(2) n(5) by (simp add: delete_items_def)
  have "total_is_sum oid (elements (u_items req)) new lines s'"
    unfolding total_is_sum_def js_sum_def h(4)
    using n update_order_meta_all[of oid tot od rs re s2] update_order_meta_ex[OF ex, of tot od rs re]
    by simp
  with h(1) n(4) f show ?thesis by (auto simp: js_sum_def)
qed

text \<open>
  C1. After a successful \<open>new-customer\<close> or \<open>generate-bill\<close> request the rows the request
  appended to \<open>order_items\<close> are the stored rows of its items (price and quantity coerced,
  line total their product, no rental days), and the total of the new order is the sum
  of their line totals. After a successful \<open>update-order\<close> request the same holds of all
  the rows of the order, and the total answered is that sum.
\<close>

theorem total_equals_sum_of_lines:
  "(new_customer E uuid today req s = (NewCustomerOk cid oid, s') \<longrightarrow>
      (\<exists>new lines. order_items s' = order_items s @ new \<and>
                    total_is_sum oid (elements (items req)) new lines s')) \<and>
   (generate_bill E uuid today req s = (BillOk oid invno, s') \<longrightarrow>
      (\<exists>new lines. order_items s' = order_items s @ new \<and>
                    total_is_sum oid (elements (items req)) new lines s')) \<and>
   (update_order E ureq s = (UpdateOk tot, s') \<longrightarrow>
      (\<exists>k lines. to_id E (u_orderId ureq) = Some k \<and> tot = js_sum lines \<and>
                  total_is_sum k (elements (u_items ureq))
                    (filter (\<lambda>i. i_order_id i = k) (order_items s')) lines s'))"
proof (intro conjI impI)
  assume "new_customer E uuid today req s = (NewCustomerOk cid oid, s')"
  then show "\<exists>new lines. order_items s' = order_items s @ new \<and>
                    total_is_sum oid (elements (items req)) new lines s'"
    by (rule new_customer_total)
next
  assume "generate_bill E uuid today req s = (BillOk oid invno, s')"
  then show "\<exists>new lines. order_items s' = order_items s @ new \<and>
                    total_is_sum oid (elements (items req)) new lines s'"
    by (rule generate_bill_total)
next
  assume "update_order E ureq s = (UpdateOk tot, s')"
  then show "\<exists>k lines. to_id E (u_orderId ureq) = Some k \<and> tot = js_sum lines \<and>
                  total_is_sum k (elements (u_items ureq))
                    (filter (\<lambda>i. i_order_id i = k) (order_items s')) lines s'"
    by (rule update_order_total)
qed

theorem total_equals_sum_of_lines_witness:
  "new_customer example_env ''inv-1'' (JStr ''2023-12-31'') example_req empty_store
     = (NewCustomerOk 1 1, example_store) \<and>
   generate_bill example_env ''inv-1'' (JStr ''2023-12-31'') example_req empty_store
     = (BillOk 1 ''inv-1'', example_store) \<and>
   update_order example_env example_update example_store
     = (UpdateOk (Fin 25), snd (update_order example_env example_update example_store)) \<and>
   (\<exists>new lines. order_items example_store = order_items empty_store @ new \<and>
                 total_is_sum 1 (elements (items example_req)) new lines example_store) \<and>
   (\<exists>k lines. to_id example_env (u_orderId example_update) = Some k \<and>
               Fin 25 = js_sum lines \<and>
               total_is_sum k (elements (u_items example_update))
                 (filter (\<lambda>i. i_order_id i = k)
                    (order_items (snd (update_order example_env example_update example_store))))
                 lines (snd (update_order example_env example_update example_store)))"
proof -
  have u: "update_order example_env example_update example_store
             = (UpdateOk (Fin 25), snd (update_order example_env example_update example_store))"
    using example_update_order by (simp add: prod_eq_iff)
  from example_new_customer example_generate_bill u
    total_equals_sum_of_lines[where E = example_env and uuid = "''inv-1''"
      and today = "JStr ''2023-12-31''" and req = example_req and s = empty_store
      and cid = 1 and oid = 1 and s' = example_store]
    total_equals_sum_of_lines[where E = example_env and ureq = example_update
      and s = example_store and tot = "Fin 25"
      and s' = "snd (update_order example_env example_update example_store)"]
  show ?thesis by blast
qed

subsection \<open>A replacement for an order that is missing\<close>

lemma update_order_unresolved:
  assumes "\<not> (\<exists>k. to_id E (u_orderId req) = Some k \<and> list_ex (\<lambda>r. o_id r = k) (orders s))"
  shows "\<exists>f. update_order E req s = (Failed f, s)"
  using assms
  by (auto simp: update_order_def update_order_tx_def split: option.splits sum.splits)

lemma update_order_not_found:
  assumes "truthy (u_orderId req)" "\<not> no_items (u_items req)"
    "to_id E (u_orderId req) = Some k" "\<not> list_ex (\<lambda>r. o_id r = k) (orders s)"
  shows "update_order E req s = (Failed OrderNotFound, s)"
  using assms by (simp add: update_order_def update_order_tx_def)

text \<open>
  C4, as the code has it. The claim promises a not-found outcome for every call whose
  order id does not resolve; the handler validates the items before it looks the order
  up, so with an empty item list the outcome is the validation failure.
\<close>

theorem missing_order_empty_items:
  "to_id example_env (u_orderId (missing_update\<lparr>u_items := JArr []\<rparr>)) = Some 99 \<and>
   map o_id (orders example_store) = [1] \<and>
   update_order example_env (missing_update\<lparr>u_items := JArr []\<rparr>) example_store
     = (Failed NoItemsProvided, example_store) \<and>
   NoItemsProvided \<noteq> OrderNotFound"
  by (simp add: missing_update_def example_env_def example_store_def update_order_def)

text \<open>
  C4, amended. A call whose order id does not resolve to an existing order fails and
  leaves the store as it was; when the order id is present, the store reads it as an id,
  and the items are a non-empty array, the failure is "Order not found".
\<close>

theorem missing_order_no_mutation:
  "(\<not> (\<exists>k. to_id E (u_orderId req) = Some k \<and> list_ex (\<lambda>r. o_id r = k) (orders s)) \<longrightarrow>
      (\<exists>f. update_order E req s = (Failed f, s))) \<and>
   (truthy (u_orderId req) \<and> \<not> no_items (u_items req) \<and>
    to_id E (u_orderId req) = Some k \<and> \<not> list_ex (\<lambda>r. o_id r = k) (orders s) \<longrightarrow>
      update_order E req s = (Failed OrderNotFound, s))"
  using update_order_unresolved[of E req s] update_order_not_found[of req E k s] by blast

theorem missing_order_no_mutation_witness:
  "truthy (u_orderId missing_update) \<and> \<not> no_items (u_items missing_update) \<and>
   to_id example_env (u_orderId missing_update) = Some 99 \<and>
   \<not> list_ex (\<lambda>r. o_id r = 99) (orders example_store) \<and>
   \<not> (\<exists>k. to_id example_env (u_orderId missing_update) = Some k \<and>
           list_ex (\<lambda>r. o_id r = k) (orders example_store)) \<and>
   (\<exists>f. update_order example_env missing_update example_store = (Failed f, example_store)) \<and>
   update_order example_env missing_update example_store = (Failed OrderNotFound, example_store)"
proof -
  have h: "truthy (u_orderId missing_update)" "\<not> no_items (u_items missing_update)"
    "to_id example_env (u_orderId missing_update) = Some 99"
    "\<not> list_ex (\<lambda>r. o_id r = 99) (orders example_store)"
    by (simp_all add: missing_update_def chair_table_def example_env_def example_store_def)
  then have n: "\<not> (\<exists>k. to_id example_env (u_orderId missing_update) = Some k \<and>
                        list_ex (\<lambda>r. o_id r = k) (orders example_store))"
    by auto
  from h n missing_order_no_mutation[of example_env missing_update example_store 99]
  show ?thesis by blast
qed

subsection \<open>Dates on a replacement\<close>

lemma date_or_null_patched:
  "date_or_null E v = Inr d \<Longrightarrow> date_patched E v old (coalesce d old)"
  by (auto simp: date_or_null_def date_patched_def coalesce_def split: if_splits option.splits)

lemma update_order_orders:
  assumes "update_order E req s = (UpdateOk tot, s')"
  shows "\<exists>k. to_id E (u_orderId req) = Some k \<and> customers s' = customers s \<and>
           list_all2 (\<lambda>old new. if o_id old = k then order_patched E req tot old new else new = old)
             (orders s) (orders s')"
proof -
  from update_order_Ok[OF assms] obtain oid s2 od rs re where
    h: "to_id E (u_orderId req) = Some oid"
       "insert_items E oid (elements (u_items req)) (Fin 0) (delete_items oid s) = Inr (tot, s2)"
       "date_or_null E (u_order_date req) = Inr od"
       "date_or_null E (u_rent_start req) = Inr rs"
       "date_or_null E (u_rent_end req) = Inr re"
       "s' = update_order_meta oid tot od rs re s2"
    by blast
  from insert_items_spec[OF h(2)] have o: "orders s2 = orders s" "customers s2 = customers s"
    by (auto simp: delete_items_def)
  have "list_all2 (\<lambda>old new. if o_id old = oid then order_patched E req tot old new else new = old)
          xs (map (\<lambda>r. if o_id r = oid
                   then r\<lparr>o_total := JNum tot,
                          o_order_date := coalesce od (o_order_date r),
                          o_rent_start := coalesce rs (o_rent_start r),
                          o_rent_end := coalesce re (o_rent_end r)\<rparr>
                   else r) xs)" for xs
    by (induction xs)
       (simp_all add: order_patched_def date_or_null_patched[OF h(3)]
          date_or_null_patched[OF h(4)] date_or_null_patched[OF h(5)])
  with h(1) h(6) o show ?thesis by (auto simp: update_order_meta_def)
qed

lemma omitted_keeps:
  assumes "list_all2 (\<lambda>old new. if o_id old = k then order_patched E req tot old new else new = old) xs ys"
  shows "(u_order_date req = JUndefined \<longrightarrow> map o_order_date ys = map o_order_date xs) \<and>
         (u_rent_start req = JUndefined \<longrightarrow> map o_rent_start ys = map o_rent_start xs) \<and>
         (u_rent_end req = JUndefined \<longrightarrow> map o_rent_end ys = map o_rent_end xs)"
  using assms
  by (induction xs ys rule: list_all2_induct)
     (auto simp: order_patched_def date_patched_def split: if_splits)

text \<open>
  C5. After a successful replacement every row of the order keeps its identity, has the
  new total, and has each of \<open>order_date\<close>, \<open>rent_start\<close> and \<open>rent_end\<close> overwritten when
  the request supplies a value for it and unchanged otherwise; the other orders and the
  customers are unchanged. A field omitted from the request leaves its column as it was.
\<close>

theorem replace_patches_dates:
  "update_order E req s = (UpdateOk tot, s') \<Longrightarrow>
   \<exists>k. to_id E (u_orderId req) = Some k \<and> customers s' = customers s \<and>
       list_all2 (\<lambda>old new. if o_id old = k then order_patched E req tot old new else new = old)
         (orders s) (orders s') \<and>
       (u_order_date req = JUndefined \<longrightarrow> map o_order_date (orders s') = map o_order_date (orders s)) \<and>
       (u_rent_start req = JUndefined \<longrightarrow> map o_rent_start (orders s') = map o_rent_start (orders s)) \<and>
       (u_rent_end req = JUndefined \<longrightarrow> map o_rent_end (orders s') = map o_rent_end (orders s))"
proof -
  assume "update_order E req s = (UpdateOk tot, s')"
  from update_order_orders[OF this] obtain k where
    k: "to_id E (u_orderId req) = Some k" "customers s' = customers s"
       "list_all2 (\<lambda>old new. if o_id old = k then order_patched E req tot old new else new = old)
          (orders s) (orders s')"
    by blast
  from k omitted_keeps[OF k(3)] show ?thesis by blast
qed

text \<open>The example supplies only \<open>rent_end\<close>: that column changes, with the total.\<close>

theorem replace_patches_dates_witness:
  "update_order example_env example_update example_store
     = (UpdateOk (Fin 25), snd (update_order example_env example_update example_store)) \<and>
   orders example_store =
     [\<lparr>o_id = 1, o_invoice_no = ''inv-1'', o_customer_id = 1,
       o_order_date = Some (ymd 2023 12 31), o_rent_start = Some (ymd 2024 1 1),
       o_rent_end = Some (ymd 2024 1 3), o_total = JNum (Fin 400)\<rparr>] \<and>
   orders (snd (update_order example_env example_update example_store)) =
     [\<lparr>o_id = 1, o_invoice_no = ''inv-1'', o_customer_id = 1,
       o_order_date = Some (ymd 2023 12 31), o_rent_start = Some (ymd 2024 1 1),
       o_rent_end = Some (ymd 2024 1 5), o_total = JNum (Fin 25)\<rparr>] \<and>
   (\<exists>k. to_id example_env (u_orderId example_update) = Some k \<and>
        list_all2
          (\<lambda>old new. if o_id old = k then order_patched example_env example_update (Fin 25) old new
                      else new = old)
          (orders example_store)
          (orders (snd (update_order example_env example_update example_store))))"
proof -
  have u: "update_order example_env example_update example_store
             = (UpdateOk (Fin 25), snd (update_order example_env example_update example_store))"
    using example_update_order by (simp add: prod_eq_iff)
  have a: "orders example_store =
     [\<lparr>o_id = 1, o_invoice_no = ''inv-1'', o_customer_id = 1,
       o_order_date = Some (ymd 2023 12 31), o_rent_start = Some (ymd 2024 1 1),
       o_rent_end = Some (ymd 2024 1 3), o_total = JNum (Fin 400)\<rparr>]"
    by (simp add: example_store_def)
  have b: "orders (snd (update_order example_env example_update example_store)) =
     [\<lparr>o_id = 1, o_invoice_no = ''inv-1'', o_customer_id = 1,
       o_order_date = Some (ymd 2023 12 31), o_rent_start = Some (ymd 2024 1 1),
       o_rent_end = Some (ymd 2024 1 5), o_total = JNum (Fin 25)\<rparr>]"
    by (simp add: write_defs example_defs number_defs)
  from replace_patches_dates[OF u] u a b show ?thesis by blast
qed

subsection \<open>The two ways to resolve the customer\<close>






section \<open>Properties of the invoice\<close>

subsection \<open>The layout of the item loop\<close>

lemma calls_put: "map snd (drawn (put doc d)) = map snd (drawn doc) @ [d]"
  by (simp add: put_def)

lemma flowed_put: "flowed (put doc d) = flowed doc"
  by (simp add: put_def)

lemma calls_puts: "map snd (drawn (puts ds doc)) = map snd (drawn doc) @ ds"
  unfolding puts_def by (induction ds arbitrary: doc) (simp_all add: calls_put)

lemma flowed_puts: "flowed (puts ds doc) = flowed doc"
  unfolding puts_def by (induction ds arbitrary: doc) (simp_all add: flowed_put)

lemma place_row_calls:
  "map snd (drawn (snd (place_row y doc))) =
     map snd (drawn doc) @ (if y + 50 > page_height - 60 then column_header 40 else [])"
  "flowed (snd (place_row y doc)) = flowed doc"
  "fst (place_row y doc) = (if y + 50 > page_height - 60 then 65 else y)"
  by (simp_all add: place_row_def calls_puts flowed_puts addPage_def)

lemma draw_items_layout:
  "draw_items days its y grand doc = Inr (y', grand', doc') \<Longrightarrow>
   \<exists>ps. list_all2 (\<lambda>it p. row_amount days it = Inr (pl_price p, pl_qty p, pl_amount p)) its ps \<and>
        placed_ok y ps \<and>
        map snd (drawn doc') = map snd (drawn doc) @ concat (map2 (placed_calls days) its ps) \<and>
        flowed doc' = flowed doc \<and>
        grand' = foldl jadd grand (map pl_amount ps) \<and> y' = end_y y ps"
proof (induction its arbitrary: y grand doc)
  case Nil
  then show ?case by auto
next
  case (Cons it its)
  from Cons.prems obtain price qty amount where
    ra: "row_amount days it = Inr (price, qty, amount)"
    and rest: "draw_items days its (fst (place_row y doc) + 130) (jadd grand amount)
            (puts (item_block days it price qty amount (fst (place_row y doc)))
               (snd (place_row y doc))) = Inr (y', grand', doc')"
    by (auto split: sum.splits prod.splits)
  let ?p = "\<lparr>pl_fresh = (y + 50 > page_height - 60), pl_y = fst (place_row y doc),
             pl_price = price, pl_qty = qty, pl_amount = amount\<rparr>"
  let ?doc1 = "puts (item_block days it price qty amount (fst (place_row y doc))) (snd (place_row y doc))"
  from Cons.IH[OF rest] obtain ps where
    ps: "list_all2 (\<lambda>it p. row_amount days it = Inr (pl_price p, pl_qty p, pl_amount p)) its ps"
        "placed_ok (fst (place_row y doc) + 130) ps"
        "map snd (drawn doc') = map snd (drawn ?doc1) @ concat (map2 (placed_calls days) its ps)"
        "flowed doc' = flowed ?doc1"
        "grand' = foldl jadd (jadd grand amount) (map pl_amount ps)"
        "y' = end_y (fst (place_row y doc) + 130) ps"
    by blast
  have d1: "map snd (drawn ?doc1) = map snd (drawn doc) @ placed_calls days it ?p"
    by (simp add: calls_puts placed_calls_def place_row_calls)
  have f1: "flowed ?doc1 = flowed doc"
    by (simp add: flowed_puts place_row_calls)
  have ok: "placed_ok y (?p # ps)"
    using ps(2) by (auto simp: place_row_calls)
  show ?case
    apply (rule exI[of _ "?p # ps"])
    using ra ps ok d1 f1 by simp
qed

lemma placed_ok_room:
  "placed_ok y ps \<Longrightarrow> p \<in> set ps \<Longrightarrow> pl_y p + 50 \<le> page_height - 60 \<and> (pl_fresh p \<longrightarrow> pl_y p = 65)"
  by (induction y ps rule: placed_ok.induct) (auto simp: page_height_def split: if_splits)

lemma invoice_layout:
  assumes "invoice E orderId s = Pdf fname ty grand doc"
  shows "\<exists>k ord cust rest ps.
           to_id E (JStr orderId) = Some k \<and> order_with_customer s k = (ord, cust) # rest \<and>
           list_all2 (\<lambda>it p. row_amount (daysCount (o_rent_start ord) (o_rent_end ord)) it
                               = Inr (pl_price p, pl_qty p, pl_amount p)) (items_of s k) ps \<and>
           placed_ok (table_top + 25) ps \<and>
           map snd (drawn doc) =
             invoice_head ord cust (daysCount (o_rent_start ord) (o_rent_end ord)) @
             column_header table_top @
             concat (map2 (placed_calls (daysCount (o_rent_start ord) (o_rent_end ord))) (items_of s k) ps) @
             total_box ty grand \<and>
           flowed doc = footer \<and>
           grand = js_sum (map pl_amount ps) \<and> ty = end_y (table_top + 25) ps + 30"
proof -
  from assms obtain k where k: "to_id E (JStr orderId) = Some k"
    by (auto simp: invoice_def split: option.splits)
  from assms k obtain ord cust rest where oc: "order_with_customer s k = (ord, cust) # rest"
    by (cases "order_with_customer s k") (auto simp: invoice_def)
  let ?days = "daysCount (o_rent_start ord) (o_rent_end ord)"
  let ?doc0 = "puts (invoice_head ord cust ?days @ column_header table_top)
                 \<lparr>page_no = 0, drawn = [], flowed = []\<rparr>"
  from assms k oc obtain y doc' where
    di: "draw_items ?days (items_of s k) (table_top + 25) (Fin 0) ?doc0 = Inr (y, grand, doc')"
    and ty: "ty = y + 30" and doc: "doc = flows footer (puts (total_box (y + 30) grand) doc')"
    by (auto simp: invoice_def Let_def split: sum.splits)
  from draw_items_layout[OF di] obtain ps where
    ps: "list_all2 (\<lambda>it p. row_amount ?days it = Inr (pl_price p, pl_qty p, pl_amount p)) (items_of s k) ps"
        "placed_ok (table_top + 25) ps"
        "map snd (drawn doc') = map snd (drawn ?doc0) @ concat (map2 (placed_calls ?days) (items_of s k) ps)"
        "flowed doc' = flowed ?doc0"
        "grand = foldl jadd (Fin 0) (map pl_amount ps)"
        "y = end_y (table_top + 25) ps"
    by blast
  have d0: "map snd (drawn ?doc0) = invoice_head ord cust ?days @ column_header table_top"
    by (simp add: calls_puts)
  have f0: "flowed ?doc0 = []" by (simp add: flowed_puts)
  have dd: "map snd (drawn doc) = map snd (drawn doc') @ total_box ty grand"
    by (simp add: doc ty flows_def calls_puts)
  have ff: "flowed doc = flowed doc' @ footer"
    by (simp add: doc flows_def flowed_puts)
  show ?thesis
    apply (rule exI[of _ k], rule exI[of _ ord], rule exI[of _ cust], rule exI[of _ rest],
           rule exI[of _ ps])
    using k oc ps d0 f0 dd ff ty by (simp add: js_sum_def)
qed





lemma invoice_box:
  assumes "invoice E orderId s = Pdf fname ty grand doc"
  shows "(page_no doc, Text HelveticaBold 16 [Lit (rupee @ '' ''), Fixed2 grand] 360 (ty + 28))
           \<in> set (drawn doc)"
proof -
  from assms obtain doc' where "doc = flows footer (puts (total_box ty grand) doc')"
    by (auto simp: invoice_def Let_def split: option.splits list.splits sum.splits)
  then show ?thesis
    by (simp add: flows_def total_box_def puts_def put_def)
qed

subsection \<open>The pages of the calls\<close>

lemma page_no_puts: "page_no (puts ds doc) = page_no doc + length (filter starts_page ds)"
  unfolding puts_def by (induction ds arbitrary: doc) (simp_all add: put_def)

lemma drawn_puts_same_page:
  "list_all (\<lambda>d. \<not> starts_page d) ds \<Longrightarrow>
   drawn (puts ds doc) = drawn doc @ map (Pair (page_no doc)) ds"
  unfolding puts_def by (induction ds arbitrary: doc) (simp_all add: put_def)

lemma same_page_count:
  "list_all (\<lambda>d. \<not> starts_page d) ds \<Longrightarrow> length (filter starts_page ds) = 0"
  by (induction ds) simp_all

lemma pages_of_puts_same_page:
  "list_all (\<lambda>d. \<not> starts_page d) ds \<Longrightarrow>
   pages_of kind (puts ds doc) = pages_of kind doc @ replicate (length (filter kind ds)) (page_no doc)"
proof -
  have "map fst (filter (\<lambda>e. kind (snd e)) (map (Pair pg) xs)) = replicate (length (filter kind xs)) pg"
    for pg :: nat and xs
    by (induction xs) simp_all
  then show "list_all (\<lambda>d. \<not> starts_page d) ds \<Longrightarrow> ?thesis"
    by (simp add: pages_of_def drawn_puts_same_page)
qed

lemma calls_on_puts_same_page:
  "list_all (\<lambda>d. \<not> starts_page d) ds \<Longrightarrow>
   calls_on pg (puts ds doc) = calls_on pg doc @ (if pg = page_no doc then ds else [])"
proof -
  have "map snd (filter (\<lambda>e. fst e = pg) (map (Pair q) xs)) = (if pg = q then xs else [])"
    for q :: nat and xs :: "draw list"
    by (induction xs) auto
  then show "list_all (\<lambda>d. \<not> starts_page d) ds \<Longrightarrow> ?thesis"
    by (simp add: calls_on_def drawn_puts_same_page)
qed

lemmas call_defs = invoice_head_def column_header_def item_block_def row_line_def
  breakdown_line_def row_rule_def summary_block_def summary_title_def total_box_def

lemmas page_defs = max_y_def margin_def page_height_def line_height_def table_top_def

lemma head_same_page:
  "list_all (\<lambda>d. \<not> starts_page d) (invoice_head ord cust days @ column_header table_top)"
  by (simp add: call_defs page_defs)

lemma block_same_page:
  "y + 100 + line_height Helvetica 10 \<le> max_y \<Longrightarrow>
   list_all (\<lambda>d. \<not> starts_page d) (item_block days it p q a y)"
  by (simp add: call_defs page_defs)

lemma total_box_pages:
  "max_y < y + 8 \<Longrightarrow>
   drawn (puts (total_box y g) doc) =
     drawn doc @ [(page_no doc, Rect 350 y 200 50),
                  (Suc (page_no doc), Text HelveticaBold 13 [Lit ''TOTAL''] 360 (y + 8)),
                  (Suc (Suc (page_no doc)),
                   Text HelveticaBold 16 [Lit (rupee @ '' ''), Fixed2 g] 360 (y + 28))] \<and>
   page_no (puts (total_box y g) doc) = Suc (Suc (page_no doc))"
  by (simp add: puts_def put_def total_box_def page_defs)

lemma block_no_column_title: "filter is_column_title (item_block days it p q a y) = []"
  by (simp add: call_defs rupee_def)

lemma head_column_titles:
  "length (filter is_column_title (invoice_head ord cust days @ column_header y)) = 1"
  by (simp add: call_defs)

text \<open>
  A row that passed the check of the handler is drawn, with its breakdown line, without a
  page break of the library: the four fields and the breakdown land on the current page.
\<close>

lemma row_same_page:
  "y + 50 \<le> page_height - 60 \<Longrightarrow>
   list_all (\<lambda>d. \<not> starts_page d) (row_line it p q a y @ [breakdown_line days p q y])"
  by (simp add: call_defs page_defs)

lemma placed_rows_same_page:
  "placed_ok y ps \<Longrightarrow> p \<in> set ps \<Longrightarrow>
   list_all (\<lambda>d. \<not> starts_page d)
     (row_line it (pl_price p) (pl_qty p) (pl_amount p) (pl_y p) @
      [breakdown_line days (pl_price p) (pl_qty p) (pl_y p)])"
  using placed_ok_room[of y ps p] by (intro row_same_page) simp

subsection \<open>An order of four items\<close>

lemma chair_amount: "row_amount 3 (chair_row n) = Inr (Fin 50, Fin 4, Fin 600)"
  by (simp add: row_amount_def chair_row_def safeNumber_def norm_num_def overflow_bound_def)

lemma four_items: "items_of four_store (Suc 0) = [chair_row 1, chair_row 2, chair_row 3, chair_row 4]"
  by (simp add: items_of_def four_store_def chair_row_def)

lemma four_order:
  "to_id example_env (JStr ''1'') = Some 1"
  "order_with_customer four_store (Suc 0) = [(hd (orders example_store), hd (customers example_store))]"
  "daysCount (o_rent_start (hd (orders example_store))) (o_rent_end (hd (orders example_store))) = 3"
  "o_invoice_no (hd (orders example_store)) = ''inv-1''"
  by (simp_all add: example_defs order_with_customer_def four_store_def daysCount_def Let_def
        diff_day_ymd civil_day_def)

lemma four_invoice:
  "invoice example_env ''1'' four_store =
     Pdf ''invoice-inv-1.pdf'' (106109 / 125) (Fin 2400)
       (flows footer
         (puts (total_box (106109 / 125) (Fin 2400))
           (puts (item_block 3 (chair_row 4) (Fin 50) (Fin 4) (Fin 600) (86109 / 125))
             (puts (item_block 3 (chair_row 3) (Fin 50) (Fin 4) (Fin 600) (69859 / 125))
               (puts (item_block 3 (chair_row 2) (Fin 50) (Fin 4) (Fin 600) (53609 / 125))
                 (puts (item_block 3 (chair_row 1) (Fin 50) (Fin 4) (Fin 600) (37359 / 125))
                   (puts (invoice_head (hd (orders example_store)) (hd (customers example_store)) 3 @
                          column_header table_top)
                      \<lparr>page_no = 0, drawn = [], flowed = []\<rparr>)))))))"
  by (simp add: invoice_def Let_def four_order four_items chair_amount place_row_def
        page_height_def table_top_def line_height_def norm_num_def overflow_bound_def)

subsection \<open>Two decimal places\<close>

lemma is_digit_digit_char: "k < 10 \<Longrightarrow> is_digit (digit_char k)"
proof -
  assume "k < 10"
  then have "k \<in> {0, 1, 2, 3, 4, 5, 6, 7, 8, 9}" by auto
  then show ?thesis by (auto simp: digit_char_def is_digit_def)
qed

lemma dec_digits_digits: "list_all is_digit (dec_digits n)"
proof (induction n rule: dec_digits.induct)
  case (1 n)
  show ?case
  proof (cases "n < 10")
    case True
    then show ?thesis by (subst dec_digits.simps) (simp add: is_digit_digit_char)
  next
    case False
    with 1 show ?thesis by (subst dec_digits.simps) (simp add: is_digit_digit_char)
  qed
qed

lemma toFixed2_shape:
  assumes "\<bar>r\<bar> < 10 ^ 21"
  shows "\<exists>w f. toFixed2 (Fin r) = Some (w @ ''.'' @ f) \<and> length f = 2 \<and> list_all is_digit f"
proof -
  define m where "m = replicate (3 - length (dec_digits (nat \<lfloor>\<bar>r\<bar> * 100 + 1 / 2\<rfloor>))) (CHR ''0'')
                       @ dec_digits (nat \<lfloor>\<bar>r\<bar> * 100 + 1 / 2\<rfloor>)"
  have len: "3 \<le> length m" by (simp add: m_def)
  have z: "is_digit (CHR ''0'')" by (simp add: is_digit_def)
  have dig: "list_all is_digit m"
    using dec_digits_digits[of "nat \<lfloor>\<bar>r\<bar> * 100 + 1 / 2\<rfloor>"] z
    by (auto simp: m_def list_all_iff)
  have t: "toFixed2 (Fin r) =
      Some (((if r < 0 then ''-'' else []) @ take (length m - 2) m) @ ''.'' @ drop (length m - 2) m)"
    using assms by (simp add: toFixed2_def Let_def m_def)
  have "length (drop (length m - 2) m) = 2" using len by simp
  moreover have "list_all is_digit (drop (length m - 2) m)"
    using dig by (auto simp: list_all_iff dest: in_set_dropD)
  ultimately show ?thesis using t by blast
qed

lemma floor_example: "\<lfloor>(240001::rat) / 2\<rfloor> = 120000"
  by (simp add: floor_eq_iff)

lemma toFixed2_example: "toFixed2 (Fin 1200) = Some ''1200.00''"
  by (simp add: toFixed2_def Let_def floor_example dec_digits.simps digit_char_def)

subsection \<open>Amounts and the grand total\<close>

lemmas invoice_defs = invoice_def order_with_customer_def items_of_def daysCount_def
  diff_day_ymd civil_day_def row_amount_def safeNumber_def norm_num_def overflow_bound_def
  place_row_def page_height_def table_top_def line_height_def Let_def

lemma example_grand:
  "grand_total (invoice example_env ''1'' example_store) = Some (Fin 1200)"
  by (simp add: invoice_defs example_defs)

lemma example_invoice:
  "invoice example_env ''1'' example_store
     = Pdf ''invoice-inv-1.pdf'' (73609 / 125) (Fin 1200)
         (the_doc (invoice example_env ''1'' example_store))"
  by (simp add: invoice_defs example_defs)

lemma num_truthy_safe: "safeNumber v = Inr n \<Longrightarrow> num_truthy n = (n \<noteq> Fin 0)"
  using safeNumber_Inr[of v n] by auto

lemma row_amount_rendered:
  "row_amount days it = Inr (p, q, a) \<Longrightarrow> rendered_amount days it a"
  by (auto simp: row_amount_def rendered_amount_def num_truthy_safe split: sum.splits)

lemma rows_rendered:
  "list_all2 (\<lambda>it p. row_amount days it = Inr (pl_price p, pl_qty p, pl_amount p)) its ps \<Longrightarrow>
   list_all2 (rendered_amount days) its (map pl_amount ps)"
  by (induction its ps rule: list_all2_induct) (auto dest: row_amount_rendered)

lemma row_amount_total:
  assumes "\<not> no_primitive (i_price it)" "\<not> no_primitive (i_quantity it)"
    "\<not> no_primitive (i_line_total it)"
  shows "\<exists>p q lt. safeNumber (i_price it) = Inr (Fin p) \<and> safeNumber (i_quantity it) = Inr (Fin q) \<and>
           safeNumber (i_line_total it) = Inr (Fin lt) \<and>
           row_amount days it =
             Inr (Fin p, Fin q,
                  if lt = 0 then jmul (jmul (Fin p) (Fin q)) (Fin (of_int days))
                  else jmul (Fin lt) (Fin (of_int days)))"
proof -
  have ex: "\<exists>r. safeNumber v = Inr (Fin r)" if "\<not> no_primitive v" for v
  proof -
    from that obtain n where n: "ToNumber v = Inr n" using ToNumber_completes by blast
    show ?thesis by (cases n) (simp_all add: safeNumber_def n)
  qed
  from ex[OF assms(1)] ex[OF assms(2)] ex[OF assms(3)] obtain p q lt where
    "safeNumber (i_price it) = Inr (Fin p)" "safeNumber (i_quantity it) = Inr (Fin q)"
    "safeNumber (i_line_total it) = Inr (Fin lt)"
    by blast
  then show ?thesis by (auto simp: row_amount_def)
qed

lemma coerces_to_zero:
  "safeNumber v = Inr (Fin 0) \<longleftrightarrow>
   (ToNumber v = Inr (Fin 0) \<or> ToNumber v = Inr NaN \<or> ToNumber v = Inr PInf \<or> ToNumber v = Inr NInf)"
proof (cases "ToNumber v")
  case (Inl e)
  then show ?thesis by (simp add: safeNumber_def)
next
  case (Inr n)
  then show ?thesis by (cases n) (simp_all add: safeNumber_def)
qed

text \<open>
  C10. For a row whose price, quantity and line total are what a driver returns (on
  each of them \<open>Number\<close> completes), the amount is computed, and it is the coerced
  line total times the day count when the line total coerces to a number other than
  zero, and coerced price times coerced quantity times the day count when it coerces to
  zero, which is the case when it is \<open>null\<close>, not numeric, not finite, or zero.
\<close>

theorem amount_falls_back:
  "\<not> no_primitive (i_price it) \<and> \<not> no_primitive (i_quantity it) \<and>
   \<not> no_primitive (i_line_total it) \<Longrightarrow>
   \<exists>p q lt. safeNumber (i_price it) = Inr (Fin p) \<and> safeNumber (i_quantity it) = Inr (Fin q) \<and>
     safeNumber (i_line_total it) = Inr (Fin lt) \<and>
     row_amount days it =
       Inr (Fin p, Fin q,
            if lt = 0 then jmul (jmul (Fin p) (Fin q)) (Fin (of_int days))
            else jmul (Fin lt) (Fin (of_int days))) \<and>
     (lt = 0 \<longleftrightarrow>
        (ToNumber (i_line_total it) = Inr (Fin 0) \<or> ToNumber (i_line_total it) = Inr NaN \<or>
         ToNumber (i_line_total it) = Inr PInf \<or> ToNumber (i_line_total it) = Inr NInf))"
proof -
  assume a: "\<not> no_primitive (i_price it) \<and> \<not> no_primitive (i_quantity it) \<and>
             \<not> no_primitive (i_line_total it)"
  then obtain p q lt where
    h: "safeNumber (i_price it) = Inr (Fin p)" "safeNumber (i_quantity it) = Inr (Fin q)"
       "safeNumber (i_line_total it) = Inr (Fin lt)"
       "row_amount days it =
          Inr (Fin p, Fin q,
               if lt = 0 then jmul (jmul (Fin p) (Fin q)) (Fin (of_int days))
               else jmul (Fin lt) (Fin (of_int days)))"
    using row_amount_total[of it days] by blast
  from h(3) coerces_to_zero[of "i_line_total it"]
  have "lt = 0 \<longleftrightarrow>
        (ToNumber (i_line_total it) = Inr (Fin 0) \<or> ToNumber (i_line_total it) = Inr NaN \<or>
         ToNumber (i_line_total it) = Inr PInf \<or> ToNumber (i_line_total it) = Inr NInf)"
    by auto
  with h show ?thesis by blast
qed

theorem amount_falls_back_witness:
  "\<not> no_primitive (i_price bare_row) \<and> \<not> no_primitive (i_quantity bare_row) \<and>
   \<not> no_primitive (i_line_total bare_row) \<and>
   row_amount 3 bare_row = Inr (Fin 50, Fin 4, Fin 600) \<and>
   (\<exists>p q lt. safeNumber (i_price bare_row) = Inr (Fin p) \<and>
      safeNumber (i_quantity bare_row) = Inr (Fin q) \<and>
      safeNumber (i_line_total bare_row) = Inr (Fin lt) \<and>
      row_amount 3 bare_row =
        Inr (Fin p, Fin q,
             if lt = 0 then jmul (jmul (Fin p) (Fin q)) (Fin (of_int 3))
             else jmul (Fin lt) (Fin (of_int 3))) \<and>
      (lt = 0 \<longleftrightarrow>
         (ToNumber (i_line_total bare_row) = Inr (Fin 0) \<or>
          ToNumber (i_line_total bare_row) = Inr NaN \<or>
          ToNumber (i_line_total bare_row) = Inr PInf \<or>
          ToNumber (i_line_total bare_row) = Inr NInf)))"
proof -
  have h: "\<not> no_primitive (i_price bare_row) \<and> \<not> no_primitive (i_quantity bare_row) \<and>
           \<not> no_primitive (i_line_total bare_row)"
    by (simp add: bare_row_def)
  have r: "row_amount 3 bare_row = Inr (Fin 50, Fin 4, Fin 600)"
    by (simp add: row_amount_def bare_row_def number_defs)
  from amount_falls_back[OF h, of 3] h r show ?thesis by blast
qed

text \<open>
  C6, as the code has it. The claim makes the grand total the sum of the stored line
  amounts times the day count, printed with exactly two decimal places. A row whose
  stored line total is zero is rendered from its price and quantity: with line totals 0
  and 200 and three days the claim gives 600, the invoice 1200. And a total of
  \<open>3 * 10^21\<close>, from an item the handlers store, is not printed in fixed notation.
\<close>

theorem grand_total_not_stored_lines:
  "map i_line_total (items_of zero_line_store 1) = [JNum (Fin 0), JNum (Fin 200)] \<and>
   js_sum [jmul (Fin 0) (Fin 3), jmul (Fin 200) (Fin 3)] = Fin 600 \<and>
   grand_total (invoice example_env ''1'' zero_line_store) = Some (Fin 1200) \<and>
   grand_total (invoice example_env ''1'' huge_store) = Some (Fin (3 * 10 ^ 21)) \<and>
   toFixed2 (Fin (3 * 10 ^ 21)) = None"
proof -
  have a: "map i_line_total (items_of zero_line_store 1) = [JNum (Fin 0), JNum (Fin 200)]"
    by (simp add: zero_line_store_def example_store_def items_of_def)
  have b: "js_sum [jmul (Fin 0) (Fin 3), jmul (Fin 200) (Fin 3)] = Fin 600"
    by (simp add: js_sum_def norm_num_def overflow_bound_def)
  have c: "grand_total (invoice example_env ''1'' zero_line_store) = Some (Fin 1200)"
    by (simp add: invoice_defs example_defs zero_line_store_def)
  have d: "grand_total (invoice example_env ''1'' huge_store) = Some (Fin (3 * 10 ^ 21))"
    by (simp add: invoice_defs example_defs huge_store_def)
  have e: "toFixed2 (Fin (3 * 10 ^ 21)) = None"
    by (simp add: toFixed2_def)
  from a b c d e show ?thesis by blast
qed

text \<open>
  C6, amended. The grand total of a rendered invoice is the sum, over the items of the
  order in the order of their ids, of the rendered amounts (the stored line total times
  the day count when the line total coerces to a number other than zero, price times
  quantity times the day count otherwise), and it is the number printed in the total box
  through \<open>toFixed(2)\<close>, on the page the document ends on. A total that is finite and
  below \<open>10^21\<close> in magnitude is printed with exactly two decimal places. In the example
  the stored total is 400, the day count 3, the grand total 1200 and its text \<open>1200.00\<close>.
\<close>

theorem grand_total_rendered:
  "(invoice E orderId s = Pdf fname ty grand doc \<longrightarrow>
      (\<exists>k ord cust rest amounts.
          to_id E (JStr orderId) = Some k \<and> order_with_customer s k = (ord, cust) # rest \<and>
          list_all2 (rendered_amount (daysCount (o_rent_start ord) (o_rent_end ord)))
            (items_of s k) amounts \<and>
          grand = js_sum amounts \<and>
          (page_no doc, Text HelveticaBold 16 [Lit (rupee @ '' ''), Fixed2 grand] 360 (ty + 28))
            \<in> set (drawn doc))) \<and>
   (\<bar>r\<bar> < 10 ^ 21 \<longrightarrow>
      (\<exists>w f. toFixed2 (Fin r) = Some (w @ ''.'' @ f) \<and> length f = 2 \<and> list_all is_digit f)) \<and>
   new_customer example_env ''inv-1'' (JStr ''2023-12-31'') example_req empty_store
     = (NewCustomerOk 1 1, example_store) \<and>
   map o_total (orders example_store) = [JNum (Fin 400)] \<and>
   map (\<lambda>r. daysCount (o_rent_start r) (o_rent_end r)) (orders example_store) = [3] \<and>
   grand_total (invoice example_env ''1'' example_store) = Some (Fin 1200) \<and>
   toFixed2 (Fin 1200) = Some ''1200.00''"
proof -
  have g: "\<exists>k ord cust rest amounts.
          to_id E (JStr orderId) = Some k \<and> order_with_customer s k = (ord, cust) # rest \<and>
          list_all2 (rendered_amount (daysCount (o_rent_start ord) (o_rent_end ord)))
            (items_of s k) amounts \<and>
          grand = js_sum amounts \<and>
          (page_no doc, Text HelveticaBold 16 [Lit (rupee @ '' ''), Fixed2 grand] 360 (ty + 28))
            \<in> set (drawn doc)"
    if inv: "invoice E orderId s = Pdf fname ty grand doc"
  proof -
    from invoice_layout[OF inv] obtain k ord cust rest and ps :: "placement list" where
      h: "to_id E (JStr orderId) = Some k" "order_with_customer s k = (ord, cust) # rest"
         "list_all2 (\<lambda>it p. row_amount (daysCount (o_rent_start ord) (o_rent_end ord)) it
                               = Inr (pl_price p, pl_qty p, pl_amount p)) (items_of s k) ps"
         "grand = js_sum (map pl_amount ps)"
      by blast
    from rows_rendered[OF h(3)] h(1) h(2) h(4) invoice_box[OF inv] show ?thesis by blast
  qed
  have ex: "new_customer example_env ''inv-1'' (JStr ''2023-12-31'') example_req empty_store
              = (NewCustomerOk 1 1, example_store)"
    by (rule example_new_customer)
  have t: "map o_total (orders example_store) = [JNum (Fin 400)]"
    by (simp add: example_store_def)
  have d: "map (\<lambda>r. daysCount (o_rent_start r) (o_rent_end r)) (orders example_store) = [3]"
    by (simp add: example_store_def daysCount_def Let_def diff_day_ymd civil_day_def)
  from g toFixed2_shape[of r] ex t d example_grand toFixed2_example show ?thesis by blast
qed

theorem grand_total_rendered_witness:
  "invoice example_env ''1'' example_store
     = Pdf ''invoice-inv-1.pdf'' (73609 / 125) (Fin 1200)
         (the_doc (invoice example_env ''1'' example_store)) \<and>
   \<bar>1200 :: rat\<bar> < 10 ^ 21 \<and>
   (\<exists>k ord cust rest amounts.
       to_id example_env (JStr ''1'') = Some k \<and>
       order_with_customer example_store k = (ord, cust) # rest \<and>
       list_all2 (rendered_amount (daysCount (o_rent_start ord) (o_rent_end ord)))
         (items_of example_store k) amounts \<and>
       Fin 1200 = js_sum amounts \<and>
       (page_no (the_doc (invoice example_env ''1'' example_store)),
        Text HelveticaBold 16 [Lit (rupee @ '' ''), Fixed2 (Fin 1200)] 360 (73609 / 125 + 28))
         \<in> set (drawn (the_doc (invoice example_env ''1'' example_store)))) \<and>
   (\<exists>w f. toFixed2 (Fin 1200) = Some (w @ ''.'' @ f) \<and> length f = 2 \<and> list_all is_digit f)"
proof -
  have b: "\<bar>1200 :: rat\<bar> < 10 ^ 21" by simp
  from example_invoice b
    grand_total_rendered[where E = example_env and orderId = "''1''"
      and s = example_store and fname = "''invoice-inv-1.pdf''" and ty = "73609 / 125"
      and grand = "Fin 1200" and doc = "the_doc (invoice example_env ''1'' example_store)"
      and r = 1200]
  show ?thesis by blast
qed

subsection \<open>Summary blocks and page breaks\<close>



text \<open>
  C9, on an order of four items. The handler asks for room before a row only: 50 below
  the cursor. Each item moves the cursor down by 130, since its summary block is drawn
  inside the loop, and the total box is drawn 30 below the last item with no check. The
  four rows of chairs are at 298.872, 428.872, 558.872 and 688.872 on the first page, and
  no page is started by the handler. The total box is at 848.872, below the bottom margin
  at 801.89: its label at 856.872 makes the library start a second page, and its amount at
  876.872 a third. The column titles are drawn once, on the first page; the second page
  holds the label alone and the third the amount alone, so these two pages have no column
  header.
\<close>

theorem headerless_pages:
  "page_no (the_doc (invoice example_env ''1'' four_store)) = 2 \<and>
   pages_of is_column_title (the_doc (invoice example_env ''1'' four_store)) = [0] \<and>
   calls_on 1 (the_doc (invoice example_env ''1'' four_store)) =
     [Text HelveticaBold 13 [Lit ''TOTAL''] 360 (106109 / 125 + 8)] \<and>
   calls_on 2 (the_doc (invoice example_env ''1'' four_store)) =
     [Text HelveticaBold 16 [Lit (rupee @ '' ''), Fixed2 (Fin 2400)] 360 (106109 / 125 + 28)]"
proof -
  let ?d0 = "puts (invoice_head (hd (orders example_store)) (hd (customers example_store)) 3 @
                   column_header table_top)
               \<lparr>page_no = 0, drawn = [], flowed = []\<rparr>"
  let ?d1 = "puts (item_block 3 (chair_row 1) (Fin 50) (Fin 4) (Fin 600) (37359 / 125)) ?d0"
  let ?d2 = "puts (item_block 3 (chair_row 2) (Fin 50) (Fin 4) (Fin 600) (53609 / 125)) ?d1"
  let ?d3 = "puts (item_block 3 (chair_row 3) (Fin 50) (Fin 4) (Fin 600) (69859 / 125)) ?d2"
  let ?d4 = "puts (item_block 3 (chair_row 4) (Fin 50) (Fin 4) (Fin 600) (86109 / 125)) ?d3"
  let ?D = "flows footer (puts (total_box (106109 / 125) (Fin 2400)) ?d4)"
  have doc: "the_doc (invoice example_env ''1'' four_store) = ?D"
    by (simp only: four_invoice the_doc.simps)
  have b1: "list_all (\<lambda>d. \<not> starts_page d)
              (item_block 3 (chair_row 1) (Fin 50) (Fin 4) (Fin 600) (37359 / 125))"
    by (rule block_same_page) (simp add: page_defs)
  have b2: "list_all (\<lambda>d. \<not> starts_page d)
              (item_block 3 (chair_row 2) (Fin 50) (Fin 4) (Fin 600) (53609 / 125))"
    by (rule block_same_page) (simp add: page_defs)
  have b3: "list_all (\<lambda>d. \<not> starts_page d)
              (item_block 3 (chair_row 3) (Fin 50) (Fin 4) (Fin 600) (69859 / 125))"
    by (rule block_same_page) (simp add: page_defs)
  have b4: "list_all (\<lambda>d. \<not> starts_page d)
              (item_block 3 (chair_row 4) (Fin 50) (Fin 4) (Fin 600) (86109 / 125))"
    by (rule block_same_page) (simp add: page_defs)
  note b0 = head_same_page[of "hd (orders example_store)" "hd (customers example_store)" 3]
  note counts = same_page_count[OF b0] same_page_count[OF b1] same_page_count[OF b2]
    same_page_count[OF b3] same_page_count[OF b4]
  have p0: "page_no ?d0 = 0" by (simp only: page_no_puts counts) simp
  have p1: "page_no ?d1 = 0" by (simp only: page_no_puts counts) simp
  have p2: "page_no ?d2 = 0" by (simp only: page_no_puts counts) simp
  have p3: "page_no ?d3 = 0" by (simp only: page_no_puts counts) simp
  have p4: "page_no ?d4 = 0" by (simp only: page_no_puts counts) simp
  have c0: "pages_of is_column_title ?d0 = [0]"
    unfolding pages_of_puts_same_page[OF b0] head_column_titles by (simp add: pages_of_def)
  have c1: "pages_of is_column_title ?d1 = [0]"
    using pages_of_puts_same_page[OF b1, of is_column_title ?d0] c0
    by (simp add: block_no_column_title)
  have c2: "pages_of is_column_title ?d2 = [0]"
    using pages_of_puts_same_page[OF b2, of is_column_title ?d1] c1
    by (simp add: block_no_column_title)
  have c3: "pages_of is_column_title ?d3 = [0]"
    using pages_of_puts_same_page[OF b3, of is_column_title ?d2] c2
    by (simp add: block_no_column_title)
  have c4: "pages_of is_column_title ?d4 = [0]"
    using pages_of_puts_same_page[OF b4, of is_column_title ?d3] c3
    by (simp add: block_no_column_title)
  have o0: "calls_on (Suc n) ?d0 = []" for n
    unfolding calls_on_puts_same_page[OF b0] by (simp add: calls_on_def)
  have o1: "calls_on (Suc n) ?d1 = []" for n
    using calls_on_puts_same_page[OF b1, of "Suc n" ?d0] o0[of n] p0 by simp
  have o2: "calls_on (Suc n) ?d2 = []" for n
    using calls_on_puts_same_page[OF b2, of "Suc n" ?d1] o1[of n] p1 by simp
  have o3: "calls_on (Suc n) ?d3 = []" for n
    using calls_on_puts_same_page[OF b3, of "Suc n" ?d2] o2[of n] p2 by simp
  have o4: "calls_on (Suc n) ?d4 = []" for n
    using calls_on_puts_same_page[OF b4, of "Suc n" ?d3] o3[of n] p3 by simp
  have low: "max_y < (106109 / 125 :: rat) + 8" by (simp add: page_defs)
  note box = total_box_pages[OF low, of "Fin 2400" ?d4]
  have dD: "drawn ?D = drawn ?d4 @
      [(0, Rect 350 (106109 / 125) 200 50),
       (1, Text HelveticaBold 13 [Lit ''TOTAL''] 360 (106109 / 125 + 8)),
       (2, Text HelveticaBold 16 [Lit (rupee @ '' ''), Fixed2 (Fin 2400)] 360 (106109 / 125 + 28))]"
    using box p4 by (simp add: flows_def)
  have pD: "page_no ?D = 2" using box p4 by (simp add: flows_def)
  have cD: "pages_of is_column_title ?D = [0]"
    using c4 dD by (simp add: pages_of_def)
  have o41: "calls_on 1 ?d4 = []" using o4[of 0] by simp
  have o42: "calls_on 2 ?d4 = []" using o4[of 1] by (simp add: numeral_2_eq_2)
  have oD1: "calls_on 1 ?D = [Text HelveticaBold 13 [Lit ''TOTAL''] 360 (106109 / 125 + 8)]"
    using o41 dD by (simp add: calls_on_def)
  have oD2: "calls_on 2 ?D =
      [Text HelveticaBold 16 [Lit (rupee @ '' ''), Fixed2 (Fin 2400)] 360 (106109 / 125 + 28)]"
    using o42 dD by (simp add: calls_on_def)
  from pD cD oD1 oD2 show ?thesis by (simp only: doc)
qed

end
